theory Spec2Isabelle
  imports Complex_Main
begin

section \<open>Numbers, vectors and errors\<close>

text \<open>
  The shaping code computes with C++ \<^verbatim>\<open>double\<close>. The model computes with \<^typ>\<open>real\<close>: it
  follows the formulas and the control flow of the code, not the rounding of IEEE
  arithmetic. \<^verbatim>\<open>std::pow( x, 2.0 )\<close> is \<open>x ^ 2\<close>, \<^verbatim>\<open>mathematical_constants::PI\<close> is
  \<^term>\<open>pi\<close>.

  The reals have no NaN and no infinity. A division by zero and the square root of a
  negative number, which give one in the code, give a real number in the model (\<open>x / 0 = 0\<close>,
  \<open>sqrt (- x) = - sqrt x\<close>) that stands for nothing the code computes. A comparison with a
  NaN is false in the code, so \<^verbatim>\<open>if ( x < 0.0 ) throw\<close> does not throw on a NaN. What is
  stated below of a negative radicand of the time equation is stated where its divisors are
  not zero.

  Every \<^verbatim>\<open>throw\<close> of the code, and every failure of a collaborator that the code lets
  through, is a value of \<open>error\<close>; a method that can throw returns \<open>error + 'a\<close>.
\<close>

datatype error =
    InfeasibleTrajectory
  | ConfigurationError
  | IndexOutOfRange
  | NoRootFound
  | InterpolationError

text \<open>\<^verbatim>\<open>Eigen::Vector3d\<close> and \<^verbatim>\<open>Eigen::Vector6d\<close> have a fixed size.\<close>

datatype vector3 = Vector3 (e0: real) (e1: real) (e2: real)

datatype vector6 =
  Vector6 (v0: real) (v1: real) (v2: real) (v3: real) (v4: real) (v5: real)

definition segment_0_3 :: "vector6 \<Rightarrow> vector3" where
  "segment_0_3 v = Vector3 (v0 v) (v1 v) (v2 v)"

definition segment_3_3 :: "vector6 \<Rightarrow> vector3" where
  "segment_3_3 v = Vector3 (v3 v) (v4 v) (v5 v)"

definition fromSegments :: "vector3 \<Rightarrow> vector3 \<Rightarrow> vector6" where
  "fromSegments a b = Vector6 (e0 a) (e1 a) (e2 a) (e0 b) (e1 b) (e2 b)"

definition times3 :: "vector3 \<Rightarrow> real \<Rightarrow> vector3" where
  "times3 a k = Vector3 (e0 a * k) (e1 a * k) (e2 a * k)"

definition divide3 :: "vector3 \<Rightarrow> real \<Rightarrow> vector3" where
  "divide3 a k = Vector3 (e0 a / k) (e1 a / k) (e2 a / k)"

definition scaled3 :: "real \<Rightarrow> vector3 \<Rightarrow> vector3" where
  "scaled3 k a = Vector3 (k * e0 a) (k * e1 a) (k * e2 a)"

definition plus3 :: "vector3 \<Rightarrow> vector3 \<Rightarrow> vector3" where
  "plus3 a b = Vector3 (e0 a + e0 b) (e1 a + e1 b) (e2 a + e2 b)"

definition norm3 :: "vector3 \<Rightarrow> real" where
  "norm3 a = sqrt ((e0 a) ^ 2 + (e1 a) ^ 2 + (e2 a) ^ 2)"

text \<open>
  \<^verbatim>\<open>Eigen::VectorXd\<close> has a dynamic size: a list. A write through \<^verbatim>\<open>operator()\<close> is
  range-checked by Eigen's assertion; the model reports it as \<open>IndexOutOfRange\<close>.
  The boundary-condition matrix is a 10 x 10 \<^verbatim>\<open>Eigen::MatrixXd\<close>: a function of the row
  and the column index, read at indices below 10 only.
\<close>

definition writeCoefficient :: "real list \<Rightarrow> nat \<Rightarrow> real \<Rightarrow> error + real list" where
  "writeCoefficient xs i x = (if i < length xs then Inr (xs[i := x]) else Inl IndexOutOfRange)"

fun forLoop :: "nat list \<Rightarrow> (nat \<Rightarrow> 'a \<Rightarrow> error + 'a) \<Rightarrow> 'a \<Rightarrow> error + 'a" where
  "forLoop [] body a = Inr a"
| "forLoop (i # rest) body a =
     (case body i a of Inl e \<Rightarrow> Inl e | Inr a' \<Rightarrow> forLoop rest body a')"

type_synonym matrix = "nat \<Rightarrow> nat \<Rightarrow> real"

definition matrixZero :: matrix where
  "matrixZero = (\<lambda>i j. 0)"

definition setEntry :: "matrix \<Rightarrow> nat \<Rightarrow> nat \<Rightarrow> real \<Rightarrow> matrix" where
  "setEntry M r c x = M(r := (M r)(c := x))"

definition indices10 :: "nat list" where
  "indices10 = [0, 1, 2, 3, 4, 5, 6, 7, 8, 9]"

definition matrixTimesVector :: "matrix \<Rightarrow> real list \<Rightarrow> real list" where
  "matrixTimesVector A x = map (\<lambda>i. sum_list (map (\<lambda>j. A i j * x ! j) indices10)) indices10"

definition vectorMinus :: "real list \<Rightarrow> real list \<Rightarrow> real list" where
  "vectorMinus a b = map (\<lambda>(x, y). x - y) (zip a b)"

definition vectorTimes :: "real list \<Rightarrow> real \<Rightarrow> real list" where
  "vectorTimes a k = map (\<lambda>x. x * k) a"

section \<open>Collaborators\<close>

text \<open>
  The composite shape functions (\<^verbatim>\<open>compositeFunctionExposinsShaping.h\<close>) are not among the
  sources. A class of composite functions is a parameter of the model: its component
  (basis) functions with their derivatives, and the composite function with its
  derivatives as functions of the coefficient vector and the angle. The object the shaping
  problem owns is the coefficient vector it was last given.
\<close>

record compositeFunctionClass =
  getComponentFunctionCurrentValue :: "nat \<Rightarrow> real \<Rightarrow> real"
  getComponentFunctionFirstDerivative :: "nat \<Rightarrow> real \<Rightarrow> real"
  getComponentFunctionSecondDerivative :: "nat \<Rightarrow> real \<Rightarrow> real"
  evaluateCompositeFunction :: "real list \<Rightarrow> real \<Rightarrow> real"
  evaluateCompositeFunctionFirstDerivative :: "real list \<Rightarrow> real \<Rightarrow> real"
  evaluateCompositeFunctionSecondDerivative :: "real list \<Rightarrow> real \<Rightarrow> real"
  evaluateCompositeFunctionThirdDerivative :: "real list \<Rightarrow> real \<Rightarrow> real"

text \<open>
  Modelled from the spec: \<^verbatim>\<open>resetCompositeFunctionCoefficients\<close> and the constructors of the
  composite function classes are missing from the sources. The spec (4.1, 7) says that
  resetting replaces the coefficient vector and fails with a configuration error when the
  size of the input does not match the size of the basis, which is 7 for the radial
  distance function and 4 for the elevation angle function (3).
\<close>

definition resetCompositeFunctionCoefficients :: "nat \<Rightarrow> real list \<Rightarrow> error + real list" where
  "resetCompositeFunctionCoefficients basisSize coefficients =
     (if length coefficients = basisSize then Inr coefficients else Inl ConfigurationError)"

definition radialBasisSize :: nat where
  "radialBasisSize = 7"

definition elevationBasisSize :: nat where
  "elevationBasisSize = 4"

text \<open>
  The root finder is external. It proposes trial values, is told the residual of each, and
  ends with a root or gives up: a tree whose branches are indexed by the residual it is
  told. Its iteration cap makes the tree well-founded.
\<close>

datatype rootFinder =
    Root real
  | GiveUp
  | Trial real "real \<Rightarrow> rootFinder"

primrec execute ::
  "rootFinder \<Rightarrow> (real \<Rightarrow> 's \<Rightarrow> error + real \<times> 's) \<Rightarrow> 's \<Rightarrow> error + real \<times> 's" where
  "execute (Root x) f s = Inr (x, s)"
| "execute GiveUp f s = Inl NoRootFound"
| "execute (Trial x next) f s =
     (case f x s of Inl e \<Rightarrow> Inl e | Inr (residual, s') \<Rightarrow> execute (next residual) f s')"

text \<open>
  The quadrature is external (Gaussian, 16 nodes): the settings (lower bound and number of
  nodes) and the upper bound select nodes and weights, the integrand is evaluated at each
  node in turn, and what the integrand throws leaves the quadrature.
\<close>

fun getQuadrature :: "(real \<Rightarrow> error + real) \<Rightarrow> (real \<times> real) list \<Rightarrow> error + real" where
  "getQuadrature f [] = Inr 0"
| "getQuadrature f ((node, weight) # rest) =
     (case f node of
        Inl e \<Rightarrow> Inl e
      | Inr y \<Rightarrow> (case getQuadrature f rest of Inl e \<Rightarrow> Inl e | Inr acc \<Rightarrow> Inr (weight * y + acc)))"

text \<open>
  What the shaping problem takes from outside, none of it among the sources: the two
  physical constants; the gravitational parameter the body map gives for the central body;
  the initial time step of the integrator settings; the two coordinate conversions; the two
  classes of composite functions; Eigen's matrix inverse, which returns a matrix for every
  matrix; the nodes and weights of the quadrature; the root finder that the settings and the
  bounds create; and whether the interpolator accepts the table it is given.
\<close>

record environment =
  ASTRONOMICAL_UNIT :: real
  JULIAN_YEAR :: real
  getGravitationalParameter :: real
  initialTimeStep :: real
  convertCartesianToSphericalState :: "vector6 \<Rightarrow> vector6"
  convertSphericalToCartesianState :: "vector6 \<Rightarrow> vector6"
  radialFunctions :: compositeFunctionClass
  elevationFunctions :: compositeFunctionClass
  matrixInverse :: "matrix \<Rightarrow> matrix"
  quadratureNodes :: "real \<times> nat \<Rightarrow> real \<Rightarrow> (real \<times> real) list"
  createRootFinder :: "real \<Rightarrow> real \<Rightarrow> real \<Rightarrow> rootFinder"
  createOneDimensionalInterpolator :: "(real \<times> real) list \<Rightarrow> bool"

definition createQuadrature ::
  "environment \<Rightarrow> (real \<Rightarrow> error + real) \<Rightarrow> real \<times> nat \<Rightarrow> real \<Rightarrow> error + real" where
  "createQuadrature env f settings upperBound = getQuadrature f (quadratureNodes env settings upperBound)"

section \<open>The shaping problem\<close>

text \<open>
  The class is declared in \<^verbatim>\<open>exposinsShaping.h\<close>; its methods are defined there (the short
  ones) and in \<^verbatim>\<open>exposinsShapingWorking.cpp\<close>. The two files do not agree everywhere. The
  methods use members that the header does not declare (the elevation coefficient vector and
  composite function, the free coefficient and its bounds, the quadrature settings), and the
  header declares \<^verbatim>\<open>coefficientsRadialDistanceFunction_\<close> as a \<^verbatim>\<open>Vector4d\<close> where the
  constructor resizes it to 7 entries and writes all seven. The record below has the members
  as the methods use them: the coefficient vectors are dynamic.

  The members keep their names without the trailing underscore (\<^verbatim>\<open>finalAzimuthAngle_\<close> is
  \<open>finalAzimuthAngle\<close>). The composite function objects are the coefficient vectors they
  hold.
\<close>

record ExposinsShaping =
  initialState :: vector6
  finalState :: vector6
  requiredTimeOfFlight :: real
  numberOfRevolutions :: int
  initialValueFreeCoefficient :: real
  lowerBoundFreeCoefficient :: real
  upperBoundFreeCoefficient :: real
  centralBodyGravitationalParameter :: real
  initialStateSphericalCoordinates :: vector6
  finalStateSphericalCoordinates :: vector6
  initialAzimuthAngle :: real
  finalAzimuthAngle :: real
  initialStateParametrizedByAzimuthAngle :: vector6
  finalStateParametrizedByAzimuthAngle :: vector6
  coefficientsRadialDistanceFunction :: "real list"
  coefficientsElevationAngleFunction :: "real list"
  radialDistanceCompositeFunction :: "real list"
  elevationAngleCompositeFunction :: "real list"
  quadratureSettings :: "real \<times> nat"
  travelledAzimuthAngle :: real
  windingParameter :: real
  initialCylindricalRadius :: real
  finalCylindricalRadius :: real
  lowerBoundGamma :: real
  upperBoundGamma :: real
  requiredGamma :: real
  interpolator :: "(real \<times> real) list"

subsection \<open>Time equation and time of flight\<close>

definition computeScalarFunctionTimeEquation :: "environment \<Rightarrow> ExposinsShaping \<Rightarrow> real \<Rightarrow> real" where
  "computeScalarFunctionTimeEquation env s currentAzimuthAngle =
     (let radialFunctionValue =
            evaluateCompositeFunction (radialFunctions env) (radialDistanceCompositeFunction s) currentAzimuthAngle;
          firstDerivativeRadialFunction =
            evaluateCompositeFunctionFirstDerivative (radialFunctions env) (radialDistanceCompositeFunction s) currentAzimuthAngle;
          secondDerivativeRadialFunction =
            evaluateCompositeFunctionSecondDerivative (radialFunctions env) (radialDistanceCompositeFunction s) currentAzimuthAngle;
          elevationFunctionValue =
            evaluateCompositeFunction (elevationFunctions env) (elevationAngleCompositeFunction s) currentAzimuthAngle;
          firstDerivativeElevationFunction =
            evaluateCompositeFunctionFirstDerivative (elevationFunctions env) (elevationAngleCompositeFunction s) currentAzimuthAngle;
          secondDerivativeElevationFunction =
            evaluateCompositeFunctionSecondDerivative (elevationFunctions env) (elevationAngleCompositeFunction s) currentAzimuthAngle
      in - secondDerivativeRadialFunction + 2 * firstDerivativeRadialFunction ^ 2 / radialFunctionValue
         + firstDerivativeRadialFunction * firstDerivativeElevationFunction
           * (secondDerivativeElevationFunction - sin elevationFunctionValue * cos elevationFunctionValue)
           / (firstDerivativeElevationFunction ^ 2 + (cos elevationFunctionValue) ^ 2)
         + radialFunctionValue * (firstDerivativeElevationFunction ^ 2 + (cos elevationFunctionValue) ^ 2))"

text \<open>
  The integrand of the time equation, written three times in the code (in
  \<^verbatim>\<open>convertIndependentVariableToTime\<close>, \<^verbatim>\<open>computeNormalizedTimeOfFlight\<close> and
  \<^verbatim>\<open>computeCurrentTimeFromAzimuthAngle\<close>) with the same body.
\<close>

definition derivativeTimeFunction :: "environment \<Rightarrow> ExposinsShaping \<Rightarrow> real \<Rightarrow> error + real" where
  "derivativeTimeFunction env s currentAzimuthAngle =
     (let scalarFunctionTimeEquation = computeScalarFunctionTimeEquation env s currentAzimuthAngle
      in if scalarFunctionTimeEquation < 0 then Inl InfeasibleTrajectory
         else Inr (sqrt (computeScalarFunctionTimeEquation env s currentAzimuthAngle
                      * (evaluateCompositeFunction (radialFunctions env) (radialDistanceCompositeFunction s) currentAzimuthAngle) ^ 2
                      / centralBodyGravitationalParameter s)))"

definition convertIndependentVariableToTime :: "environment \<Rightarrow> ExposinsShaping \<Rightarrow> real \<Rightarrow> error + real" where
  "convertIndependentVariableToTime env s independentVariable =
     createQuadrature env (derivativeTimeFunction env s) (quadratureSettings s) independentVariable"

definition computeNormalizedTimeOfFlight :: "environment \<Rightarrow> ExposinsShaping \<Rightarrow> error + real" where
  "computeNormalizedTimeOfFlight env s =
     createQuadrature env (derivativeTimeFunction env s) (quadratureSettings s) (finalAzimuthAngle s)"

definition computeCurrentTimeFromAzimuthAngle :: "environment \<Rightarrow> ExposinsShaping \<Rightarrow> real \<Rightarrow> error + real" where
  "computeCurrentTimeFromAzimuthAngle env s currentAzimuthAngle =
     createQuadrature env (derivativeTimeFunction env s) (quadratureSettings s) currentAzimuthAngle"

definition computeTimeOfFlight :: "environment \<Rightarrow> ExposinsShaping \<Rightarrow> error + real" where
  "computeTimeOfFlight env s =
     (case computeNormalizedTimeOfFlight env s of
        Inl e \<Rightarrow> Inl e
      | Inr normalizedTimeOfFlight \<Rightarrow> Inr (normalizedTimeOfFlight * JULIAN_YEAR env))"

definition getNormalizedRequiredTimeOfFlight :: "ExposinsShaping \<Rightarrow> real" where
  "getNormalizedRequiredTimeOfFlight s = requiredTimeOfFlight s"

definition resetRequiredGamma :: "real \<Rightarrow> ExposinsShaping \<Rightarrow> ExposinsShaping" where
  "resetRequiredGamma requiredGamma' s = s\<lparr>requiredGamma := requiredGamma'\<rparr>"

text \<open>
  Modelled from the spec: \<^verbatim>\<open>resetValueFreeCoefficient\<close>, which the code binds as the
  first callback of the objective, is missing from the sources. The spec (4.4, step 1) says
  it sets the trial free coefficient; \<^verbatim>\<open>satisfyBoundaryConditions\<close> reads the free coefficient
  from \<^verbatim>\<open>initialValueFreeCoefficient\<close>.
\<close>

definition resetValueFreeCoefficient :: "real \<Rightarrow> ExposinsShaping \<Rightarrow> ExposinsShaping" where
  "resetValueFreeCoefficient freeCoefficient s = s\<lparr>initialValueFreeCoefficient := freeCoefficient\<rparr>"

subsection \<open>Boundary conditions\<close>

definition computeInitialAlphaValue :: "ExposinsShaping \<Rightarrow> real" where
  "computeInitialAlphaValue s =
     (let p = initialStateParametrizedByAzimuthAngle s
      in - (v3 p * v5 p / v0 p) / ((v5 p / v0 p) ^ 2 + (cos (v2 p)) ^ 2))"

definition computeFinalAlphaValue :: "ExposinsShaping \<Rightarrow> real" where
  "computeFinalAlphaValue s =
     (let p = finalStateParametrizedByAzimuthAngle s
      in - (v3 p * v5 p / v0 p) / ((v5 p / v0 p) ^ 2 + (cos (v2 p)) ^ 2))"

definition computeInitialValueBoundariesConstant :: "ExposinsShaping \<Rightarrow> real" where
  "computeInitialValueBoundariesConstant s =
     (let radialDistance = v0 (initialStateParametrizedByAzimuthAngle s);
          elevationAngle = v2 (initialStateParametrizedByAzimuthAngle s);
          derivativeRadialDistance = v3 (initialStateParametrizedByAzimuthAngle s);
          derivativeElevationAngle =
            v5 (initialStateParametrizedByAzimuthAngle s) / v0 (initialStateParametrizedByAzimuthAngle s);
          derivativeOfTimeWrtAzimuthAngle =
            (v0 (initialStateParametrizedByAzimuthAngle s) * cos (v2 (initialStateParametrizedByAzimuthAngle s)))
            / v4 (initialStateSphericalCoordinates s)
      in - centralBodyGravitationalParameter s * derivativeOfTimeWrtAzimuthAngle ^ 2 / radialDistance ^ 2
         + 2 * derivativeRadialDistance ^ 2 / radialDistance
         + radialDistance * (derivativeElevationAngle ^ 2 + (cos elevationAngle) ^ 2)
         - derivativeRadialDistance * derivativeElevationAngle * (sin elevationAngle * cos elevationAngle)
           / (derivativeElevationAngle ^ 2 + (cos elevationAngle) ^ 2))"

definition computeFinalValueBoundariesConstant :: "ExposinsShaping \<Rightarrow> real" where
  "computeFinalValueBoundariesConstant s =
     (let radialDistance = v0 (finalStateParametrizedByAzimuthAngle s);
          elevationAngle = v2 (finalStateParametrizedByAzimuthAngle s);
          derivativeRadialDistance = v3 (finalStateParametrizedByAzimuthAngle s);
          derivativeElevationAngle =
            v5 (finalStateParametrizedByAzimuthAngle s) / v0 (finalStateParametrizedByAzimuthAngle s);
          derivativeOfTimeWrtAzimuthAngle =
            (v0 (finalStateParametrizedByAzimuthAngle s) * cos (v2 (finalStateParametrizedByAzimuthAngle s)))
            / v4 (finalStateSphericalCoordinates s)
      in - centralBodyGravitationalParameter s * derivativeOfTimeWrtAzimuthAngle ^ 2 / radialDistance ^ 2
         + 2 * derivativeRadialDistance ^ 2 / radialDistance
         + radialDistance * (derivativeElevationAngle ^ 2 + (cos elevationAngle) ^ 2)
         - derivativeRadialDistance * derivativeElevationAngle * (sin elevationAngle * cos elevationAngle)
           / (derivativeElevationAngle ^ 2 + (cos elevationAngle) ^ 2))"

text \<open>
  The two loops that fill the boundary-condition matrix. The first runs over the six
  radial components other than the free one (component 2 is skipped); the second over the
  four elevation components.
\<close>

definition radialColumn :: "environment \<Rightarrow> ExposinsShaping \<Rightarrow> nat \<Rightarrow> matrix \<Rightarrow> matrix" where
  "radialColumn env s i M =
     (let index = (if i \<ge> 2 then i + 1 else i);
          M0 = setEntry M 0 i (getComponentFunctionCurrentValue (radialFunctions env) index (initialAzimuthAngle s));
          M1 = setEntry M0 1 i (getComponentFunctionCurrentValue (radialFunctions env) index (finalAzimuthAngle s));
          M2 = setEntry M1 2 i (getComponentFunctionFirstDerivative (radialFunctions env) index (initialAzimuthAngle s));
          M3 = setEntry M2 3 i (getComponentFunctionFirstDerivative (radialFunctions env) index (finalAzimuthAngle s));
          M4 = setEntry M3 4 i (- ((v0 (initialStateSphericalCoordinates s)) ^ 2)
                 * getComponentFunctionSecondDerivative (radialFunctions env) index (initialAzimuthAngle s))
      in setEntry M4 5 i (- ((v0 (finalStateSphericalCoordinates s)) ^ 2)
                 * getComponentFunctionSecondDerivative (radialFunctions env) index (finalAzimuthAngle s)))"

definition elevationColumn ::
  "environment \<Rightarrow> ExposinsShaping \<Rightarrow> real \<Rightarrow> real \<Rightarrow> nat \<Rightarrow> matrix \<Rightarrow> matrix" where
  "elevationColumn env s initialValueAlpha finalValueAlpha i M =
     (let M4 = setEntry M 4 (i + 6)
                 (initialValueAlpha * getComponentFunctionSecondDerivative (elevationFunctions env) i (initialAzimuthAngle s));
          M5 = setEntry M4 5 (i + 6)
                 (finalValueAlpha * getComponentFunctionSecondDerivative (elevationFunctions env) i (finalAzimuthAngle s));
          M6 = setEntry M5 6 (i + 6) (getComponentFunctionCurrentValue (elevationFunctions env) i (initialAzimuthAngle s));
          M7 = setEntry M6 7 (i + 6) (getComponentFunctionCurrentValue (elevationFunctions env) i (finalAzimuthAngle s));
          M8 = setEntry M7 8 (i + 6) (getComponentFunctionFirstDerivative (elevationFunctions env) i (initialAzimuthAngle s))
      in setEntry M8 9 (i + 6) (getComponentFunctionFirstDerivative (elevationFunctions env) i (finalAzimuthAngle s)))"

definition matrixBoundaryConditions :: "environment \<Rightarrow> ExposinsShaping \<Rightarrow> matrix" where
  "matrixBoundaryConditions env s =
     (let M = fold (radialColumn env s) [0, 1, 2, 3, 4, 5] matrixZero;
          initialValueAlpha = computeInitialAlphaValue s;
          finalValueAlpha = computeFinalAlphaValue s
      in fold (elevationColumn env s initialValueAlpha finalValueAlpha) [0, 1, 2, 3] M)"

text \<open>
  \<^verbatim>\<open>matrixBoundaryConditions.inverse()\<close> is Eigen's: it has no failure path, and returns some
  matrix for every input. The code hands the assembled matrix to it and returns the result.
\<close>

definition computeInverseMatrixBoundaryConditions :: "environment \<Rightarrow> ExposinsShaping \<Rightarrow> matrix" where
  "computeInverseMatrixBoundaryConditions env s = matrixInverse env (matrixBoundaryConditions env s)"

definition vectorBoundaryValues :: "ExposinsShaping \<Rightarrow> real list" where
  "vectorBoundaryValues s =
     (let p = initialStateParametrizedByAzimuthAngle s; q = finalStateParametrizedByAzimuthAngle s
      in [1 / v0 p,
          1 / v0 q,
          - v3 p / (v0 p) ^ 2,
          - v3 q / (v0 q) ^ 2,
          computeInitialValueBoundariesConstant s - 2 * (v3 p) ^ 2 / v0 p,
          computeFinalValueBoundariesConstant s - 2 * (v3 q) ^ 2 / v0 q,
          v2 p,
          v2 q,
          v5 p / v0 p,
          v5 q / v0 q])"

definition vectorSecondComponentContribution :: "environment \<Rightarrow> ExposinsShaping \<Rightarrow> real list" where
  "vectorSecondComponentContribution env s =
     [getComponentFunctionCurrentValue (radialFunctions env) 2 (initialAzimuthAngle s),
      getComponentFunctionCurrentValue (radialFunctions env) 2 (finalAzimuthAngle s),
      getComponentFunctionFirstDerivative (radialFunctions env) 2 (initialAzimuthAngle s),
      getComponentFunctionFirstDerivative (radialFunctions env) 2 (finalAzimuthAngle s),
      - ((v0 (initialStateParametrizedByAzimuthAngle s)) ^ 2)
        * getComponentFunctionSecondDerivative (radialFunctions env) 2 (initialAzimuthAngle s),
      - ((v0 (finalStateParametrizedByAzimuthAngle s)) ^ 2)
        * getComponentFunctionSecondDerivative (radialFunctions env) 2 (finalAzimuthAngle s),
      0, 0, 0, 0]"

definition radialCoefficientWrite :: "real list \<Rightarrow> nat \<Rightarrow> real list \<Rightarrow> error + real list" where
  "radialCoefficientWrite compositeFunctionCoefficients i coefficients =
     (if i < 2 then writeCoefficient coefficients i (compositeFunctionCoefficients ! i)
      else writeCoefficient coefficients (i + 1) (compositeFunctionCoefficients ! i))"

definition elevationCoefficientWrite :: "real list \<Rightarrow> nat \<Rightarrow> real list \<Rightarrow> error + real list" where
  "elevationCoefficientWrite compositeFunctionCoefficients i coefficients =
     writeCoefficient coefficients i (compositeFunctionCoefficients ! (i + 6))"

definition compositeFunctionCoefficients :: "environment \<Rightarrow> ExposinsShaping \<Rightarrow> real list" where
  "compositeFunctionCoefficients env s =
     (let contribution = vectorTimes (vectorSecondComponentContribution env s) (initialValueFreeCoefficient s);
          inverseMatrixBoundaryConditions = computeInverseMatrixBoundaryConditions env s
      in matrixTimesVector inverseMatrixBoundaryConditions (vectorMinus (vectorBoundaryValues s) contribution))"

definition satisfyBoundaryConditions :: "environment \<Rightarrow> ExposinsShaping \<Rightarrow> error + ExposinsShaping" where
  "satisfyBoundaryConditions env s =
     (case forLoop [0, 1, 2, 3, 4, 5] (radialCoefficientWrite (compositeFunctionCoefficients env s))
             (coefficientsRadialDistanceFunction s) of
        Inl e \<Rightarrow> Inl e
      | Inr radial6 \<Rightarrow>
     (case writeCoefficient radial6 2 (initialValueFreeCoefficient s) of
        Inl e \<Rightarrow> Inl e
      | Inr radial \<Rightarrow>
     (case forLoop [0, 1, 2, 3] (elevationCoefficientWrite (compositeFunctionCoefficients env s))
             (coefficientsElevationAngleFunction s) of
        Inl e \<Rightarrow> Inl e
      | Inr elevation \<Rightarrow>
     (case resetCompositeFunctionCoefficients radialBasisSize radial of
        Inl e \<Rightarrow> Inl e
      | Inr radialObject \<Rightarrow>
     (case resetCompositeFunctionCoefficients elevationBasisSize elevation of
        Inl e \<Rightarrow> Inl e
      | Inr elevationObject \<Rightarrow>
          Inr (s\<lparr>coefficientsRadialDistanceFunction := radial,
                 coefficientsElevationAngleFunction := elevation,
                 radialDistanceCompositeFunction := radialObject,
                 elevationAngleCompositeFunction := elevationObject\<rparr>))))))"

subsection \<open>The objective of the root finder\<close>

text \<open>
  \<^verbatim>\<open>TimeOfFlightFunction\<close> (\<^verbatim>\<open>exposinsShaping.h\<close>) declares four callbacks on the shaping
  problem. Its constructor takes and stores three of them and \<^verbatim>\<open>evaluate\<close> calls these
  three; \<^verbatim>\<open>satisfyBoundaryConditionsFunction_\<close> is declared, never set and never called.
  \<^verbatim>\<open>iterateToMatchRequiredTimeOfFlight\<close> (\<^verbatim>\<open>exposinsShapingWorking.cpp\<close>) constructs the
  objective from four callbacks, which the constructor in the header does not accept: here
  too the two files are of different revisions. \<^verbatim>\<open>evaluate\<close> below is the one of the header,
  the only definition among the sources; the record has the four members of the class, and
  \<^verbatim>\<open>timeOfFlightFunction\<close> fills them with the four callbacks that the .cpp binds. What
  \<^verbatim>\<open>evaluate\<close> returns does not depend on the member it never calls.
\<close>

record 's TimeOfFlightFunction =
  resetFreeCoefficientFunction :: "real \<Rightarrow> 's \<Rightarrow> 's"
  satisfyBoundaryConditionsFunction :: "'s \<Rightarrow> error + 's"
  computeTimeOfFlightFunction :: "'s \<Rightarrow> error + real"
  getRequiredTimeOfFlightfunction :: "'s \<Rightarrow> real"

definition evaluate :: "'s TimeOfFlightFunction \<Rightarrow> real \<Rightarrow> 's \<Rightarrow> error + real \<times> 's" where
  "evaluate f inputValue s =
     (let s1 = resetFreeCoefficientFunction f inputValue s
      in case computeTimeOfFlightFunction f s1 of
           Inl e \<Rightarrow> Inl e
         | Inr currentTimeOfFlight \<Rightarrow> Inr (getRequiredTimeOfFlightfunction f s1 - currentTimeOfFlight, s1))"

definition timeOfFlightFunction :: "environment \<Rightarrow> ExposinsShaping TimeOfFlightFunction" where
  "timeOfFlightFunction env =
     \<lparr>resetFreeCoefficientFunction = resetValueFreeCoefficient,
      satisfyBoundaryConditionsFunction = satisfyBoundaryConditions env,
      computeTimeOfFlightFunction = computeNormalizedTimeOfFlight env,
      getRequiredTimeOfFlightfunction = getNormalizedRequiredTimeOfFlight\<rparr>"

definition iterateToMatchRequiredTimeOfFlight ::
  "environment \<Rightarrow> real \<Rightarrow> real \<Rightarrow> real \<Rightarrow> ExposinsShaping \<Rightarrow> error + ExposinsShaping" where
  "iterateToMatchRequiredTimeOfFlight env lowerBound upperBound initialGuess s =
     (let rootFinder = createRootFinder env lowerBound upperBound initialGuess
      in case execute rootFinder (evaluate (timeOfFlightFunction env)) s of
           Inl e \<Rightarrow> Inl e
         | Inr (updatedFreeCoefficient, s') \<Rightarrow> Inr s')"

subsection \<open>Kinematics and thrust\<close>

definition computePositionVectorInSphericalCoordinates :: "environment \<Rightarrow> ExposinsShaping \<Rightarrow> real \<Rightarrow> vector3" where
  "computePositionVectorInSphericalCoordinates env s currentAzimuthAngle =
     Vector3 (evaluateCompositeFunction (radialFunctions env) (radialDistanceCompositeFunction s) currentAzimuthAngle)
             currentAzimuthAngle
             (evaluateCompositeFunction (elevationFunctions env) (elevationAngleCompositeFunction s) currentAzimuthAngle)"

definition computeFirstDerivativeAzimuthAngleWrtTime :: "environment \<Rightarrow> ExposinsShaping \<Rightarrow> real \<Rightarrow> real" where
  "computeFirstDerivativeAzimuthAngleWrtTime env s currentAzimuthAngle =
     (let scalarFunctionTimeEquation = computeScalarFunctionTimeEquation env s currentAzimuthAngle;
          radialDistance =
            evaluateCompositeFunction (radialFunctions env) (radialDistanceCompositeFunction s) currentAzimuthAngle
      in sqrt (centralBodyGravitationalParameter s / (scalarFunctionTimeEquation * radialDistance ^ 2)))"

definition computeDerivativeScalarFunctionTimeEquation :: "environment \<Rightarrow> ExposinsShaping \<Rightarrow> real \<Rightarrow> real" where
  "computeDerivativeScalarFunctionTimeEquation env s currentAzimuthAngle =
     (let radialFunctionValue =
            evaluateCompositeFunction (radialFunctions env) (radialDistanceCompositeFunction s) currentAzimuthAngle;
          firstDerivativeRadialFunction =
            evaluateCompositeFunctionFirstDerivative (radialFunctions env) (radialDistanceCompositeFunction s) currentAzimuthAngle;
          secondDerivativeRadialFunction =
            evaluateCompositeFunctionSecondDerivative (radialFunctions env) (radialDistanceCompositeFunction s) currentAzimuthAngle;
          thirdDerivativeRadialFunction =
            evaluateCompositeFunctionThirdDerivative (radialFunctions env) (radialDistanceCompositeFunction s) currentAzimuthAngle;
          elevationFunctionValue =
            evaluateCompositeFunction (elevationFunctions env) (elevationAngleCompositeFunction s) currentAzimuthAngle;
          firstDerivativeElevationFunction =
            evaluateCompositeFunctionFirstDerivative (elevationFunctions env) (elevationAngleCompositeFunction s) currentAzimuthAngle;
          secondDerivativeElevationFunction =
            evaluateCompositeFunctionSecondDerivative (elevationFunctions env) (elevationAngleCompositeFunction s) currentAzimuthAngle;
          thirdDerivativeElevationFunction =
            evaluateCompositeFunctionThirdDerivative (elevationFunctions env) (elevationAngleCompositeFunction s) currentAzimuthAngle;
          F1 = firstDerivativeElevationFunction ^ 2 + (cos elevationFunctionValue) ^ 2;
          F2 = secondDerivativeElevationFunction - sin (2 * elevationFunctionValue) / 2;
          F3 = cos (2 * elevationFunctionValue) + 2 * firstDerivativeElevationFunction ^ 2 + 1;
          F4 = 2 * secondDerivativeElevationFunction - sin (2 * elevationFunctionValue)
      in F1 * firstDerivativeRadialFunction - thirdDerivativeRadialFunction
         - 2 * firstDerivativeRadialFunction ^ 3 / radialFunctionValue ^ 2
         + 4 * firstDerivativeRadialFunction * secondDerivativeRadialFunction / radialFunctionValue
         + F4 * firstDerivativeElevationFunction * radialFunctionValue
         + 2 * firstDerivativeElevationFunction * firstDerivativeRadialFunction
           * (thirdDerivativeElevationFunction - firstDerivativeElevationFunction * cos (2 * elevationFunctionValue)) / F3
         + F2 * firstDerivativeElevationFunction * secondDerivativeRadialFunction / F1
         + F2 * firstDerivativeRadialFunction * secondDerivativeElevationFunction / F1
         - 4 * F4 * F2 * firstDerivativeElevationFunction ^ 2 * firstDerivativeRadialFunction / F3 ^ 2)"

definition computeSecondDerivativeAzimuthAngleWrtTime :: "environment \<Rightarrow> ExposinsShaping \<Rightarrow> real \<Rightarrow> real" where
  "computeSecondDerivativeAzimuthAngleWrtTime env s currentAzimuthAngle =
     (let firstDerivativeAzimuthAngle = computeFirstDerivativeAzimuthAngleWrtTime env s currentAzimuthAngle;
          scalarFunctionTimeEquation = computeScalarFunctionTimeEquation env s currentAzimuthAngle;
          derivativeScalarFunctionTimeEquation = computeDerivativeScalarFunctionTimeEquation env s currentAzimuthAngle;
          radialDistance =
            evaluateCompositeFunction (radialFunctions env) (radialDistanceCompositeFunction s) currentAzimuthAngle;
          firstDerivativeRadialDistance =
            evaluateCompositeFunctionFirstDerivative (radialFunctions env) (radialDistanceCompositeFunction s) currentAzimuthAngle
      in - (firstDerivativeAzimuthAngle ^ 2)
         * (derivativeScalarFunctionTimeEquation / (2 * scalarFunctionTimeEquation)
            + firstDerivativeRadialDistance / radialDistance))"

definition computeCurrentVelocityParametrizedByAzimuthAngle :: "environment \<Rightarrow> ExposinsShaping \<Rightarrow> real \<Rightarrow> vector3" where
  "computeCurrentVelocityParametrizedByAzimuthAngle env s currentAzimuthAngle =
     (let radialDistance =
            evaluateCompositeFunction (radialFunctions env) (radialDistanceCompositeFunction s) currentAzimuthAngle;
          derivativeRadialDistance =
            evaluateCompositeFunctionFirstDerivative (radialFunctions env) (radialDistanceCompositeFunction s) currentAzimuthAngle;
          elevationAngle =
            evaluateCompositeFunction (elevationFunctions env) (elevationAngleCompositeFunction s) currentAzimuthAngle;
          derivativeElevationAngle =
            evaluateCompositeFunctionFirstDerivative (elevationFunctions env) (elevationAngleCompositeFunction s) currentAzimuthAngle
      in Vector3 derivativeRadialDistance (radialDistance * cos elevationAngle) (radialDistance * derivativeElevationAngle))"

definition computeVelocityVectorInSphericalCoordinates :: "environment \<Rightarrow> ExposinsShaping \<Rightarrow> real \<Rightarrow> vector3" where
  "computeVelocityVectorInSphericalCoordinates env s currentAzimuthAngle =
     (let derivativeAzimuthAngle = computeFirstDerivativeAzimuthAngleWrtTime env s currentAzimuthAngle
      in scaled3 derivativeAzimuthAngle (computeCurrentVelocityParametrizedByAzimuthAngle env s currentAzimuthAngle))"

definition computeStateVectorInSphericalCoordinates :: "environment \<Rightarrow> ExposinsShaping \<Rightarrow> real \<Rightarrow> vector6" where
  "computeStateVectorInSphericalCoordinates env s currentAzimuthAngle =
     fromSegments (computePositionVectorInSphericalCoordinates env s currentAzimuthAngle)
                  (computeVelocityVectorInSphericalCoordinates env s currentAzimuthAngle)"

definition computeNormalizedStateVector :: "environment \<Rightarrow> ExposinsShaping \<Rightarrow> real \<Rightarrow> vector6" where
  "computeNormalizedStateVector env s currentAzimuthAngle =
     convertSphericalToCartesianState env (computeStateVectorInSphericalCoordinates env s currentAzimuthAngle)"

definition computeCurrentAccelerationParametrizedByAzimuthAngle :: "environment \<Rightarrow> ExposinsShaping \<Rightarrow> real \<Rightarrow> vector3" where
  "computeCurrentAccelerationParametrizedByAzimuthAngle env s currentAzimuthAngle =
     (let radialDistance =
            evaluateCompositeFunction (radialFunctions env) (radialDistanceCompositeFunction s) currentAzimuthAngle;
          firstDerivativeRadialDistance =
            evaluateCompositeFunctionFirstDerivative (radialFunctions env) (radialDistanceCompositeFunction s) currentAzimuthAngle;
          secondDerivativeRadialDistance =
            evaluateCompositeFunctionSecondDerivative (radialFunctions env) (radialDistanceCompositeFunction s) currentAzimuthAngle;
          elevationAngle =
            evaluateCompositeFunction (elevationFunctions env) (elevationAngleCompositeFunction s) currentAzimuthAngle;
          firstDerivativeElevationAngle =
            evaluateCompositeFunctionFirstDerivative (elevationFunctions env) (elevationAngleCompositeFunction s) currentAzimuthAngle;
          secondDerivativeElevationAngle =
            evaluateCompositeFunctionSecondDerivative (elevationFunctions env) (elevationAngleCompositeFunction s) currentAzimuthAngle
      in Vector3
           (secondDerivativeRadialDistance
              - radialDistance * (firstDerivativeElevationAngle ^ 2 + (cos elevationAngle) ^ 2))
           (2 * firstDerivativeRadialDistance * cos elevationAngle
              - 2 * radialDistance * firstDerivativeElevationAngle * sin elevationAngle)
           (2 * firstDerivativeRadialDistance * firstDerivativeElevationAngle
              + radialDistance * (secondDerivativeElevationAngle + sin elevationAngle * cos elevationAngle)))"

definition computeThrustAccelerationInSphericalCoordinates :: "environment \<Rightarrow> ExposinsShaping \<Rightarrow> real \<Rightarrow> vector3" where
  "computeThrustAccelerationInSphericalCoordinates env s currentAzimuthAngle =
     (let radialDistance =
            evaluateCompositeFunction (radialFunctions env) (radialDistanceCompositeFunction s) currentAzimuthAngle;
          firstDerivativeAzimuthAngleWrtTime = computeFirstDerivativeAzimuthAngleWrtTime env s currentAzimuthAngle;
          secondDerivativeAzimuthAngleWrtTime = computeSecondDerivativeAzimuthAngleWrtTime env s currentAzimuthAngle;
          velocityParametrizedByAzimuthAngle = computeCurrentVelocityParametrizedByAzimuthAngle env s currentAzimuthAngle;
          accelerationParametrizedByAzimuthAngle =
            computeCurrentAccelerationParametrizedByAzimuthAngle env s currentAzimuthAngle
      in plus3
           (plus3 (scaled3 (firstDerivativeAzimuthAngleWrtTime ^ 2) accelerationParametrizedByAzimuthAngle)
                  (scaled3 secondDerivativeAzimuthAngleWrtTime velocityParametrizedByAzimuthAngle))
           (scaled3 (centralBodyGravitationalParameter s / radialDistance ^ 3) (Vector3 radialDistance 0 0)))"

definition computeNormalizedThrustAccelerationVector :: "environment \<Rightarrow> ExposinsShaping \<Rightarrow> real \<Rightarrow> vector3" where
  "computeNormalizedThrustAccelerationVector env s currentAzimuthAngle =
     (let sphericalStateToBeConverted =
            fromSegments (computePositionVectorInSphericalCoordinates env s currentAzimuthAngle)
                         (computeThrustAccelerationInSphericalCoordinates env s currentAzimuthAngle)
      in segment_3_3 (convertSphericalToCartesianState env sphericalStateToBeConverted))"

definition computeCurrentThrustAccelerationMagnitude :: "environment \<Rightarrow> ExposinsShaping \<Rightarrow> real \<Rightarrow> real" where
  "computeCurrentThrustAccelerationMagnitude env s currentAzimuthAngle =
     norm3 (computeNormalizedThrustAccelerationVector env s currentAzimuthAngle) * ASTRONOMICAL_UNIT env
       / (JULIAN_YEAR env) ^ 2"

subsection \<open>Public queries\<close>

text \<open>
  The public queries are not \<^verbatim>\<open>const\<close> in the class. They are modelled as the methods
  they are: each returns its result together with the object as the call leaves it.
\<close>

definition computeCurrentStateVector ::
  "environment \<Rightarrow> real \<Rightarrow> ExposinsShaping \<Rightarrow> vector6 \<times> ExposinsShaping" where
  "computeCurrentStateVector env currentAzimuthAngle s =
     (fromSegments
        (times3 (segment_0_3 (computeNormalizedStateVector env s currentAzimuthAngle)) (ASTRONOMICAL_UNIT env))
        (divide3 (times3 (segment_3_3 (computeNormalizedStateVector env s currentAzimuthAngle)) (ASTRONOMICAL_UNIT env))
                 (JULIAN_YEAR env)),
      s)"

definition computeCurrentThrustAccelerationVector ::
  "environment \<Rightarrow> real \<Rightarrow> ExposinsShaping \<Rightarrow> vector3 \<times> ExposinsShaping" where
  "computeCurrentThrustAccelerationVector env currentAzimuthAngle s =
     (divide3 (times3 (computeNormalizedThrustAccelerationVector env s currentAzimuthAngle) (ASTRONOMICAL_UNIT env))
              ((JULIAN_YEAR env) ^ 2),
      s)"

text \<open>
  The integrand of \<^verbatim>\<open>computeDeltaV\<close> takes the square root of the same expression as the
  time integrand, without the feasibility check that precedes it there.
\<close>

definition derivativeFunctionDeltaV :: "environment \<Rightarrow> ExposinsShaping \<Rightarrow> real \<Rightarrow> error + real" where
  "derivativeFunctionDeltaV env s currentAzimuthAngle =
     (let thrustAcceleration =
            norm3 (computeThrustAccelerationInSphericalCoordinates env s currentAzimuthAngle)
            * sqrt (computeScalarFunctionTimeEquation env s currentAzimuthAngle
                    * (evaluateCompositeFunction (radialFunctions env) (radialDistanceCompositeFunction s) currentAzimuthAngle) ^ 2
                    / centralBodyGravitationalParameter s)
      in Inr thrustAcceleration)"

definition computeDeltaV :: "environment \<Rightarrow> ExposinsShaping \<Rightarrow> (error + real) \<times> ExposinsShaping" where
  "computeDeltaV env s =
     (case createQuadrature env (derivativeFunctionDeltaV env s) (quadratureSettings s) (finalAzimuthAngle s) of
        Inl e \<Rightarrow> (Inl e, s)
      | Inr quadrature \<Rightarrow> (Inr (quadrature * ASTRONOMICAL_UNIT env / JULIAN_YEAR env), s))"

subsection \<open>The exponential sinusoid\<close>

text \<open>\<^verbatim>\<open>std::copysign\<close> on reals: the magnitude of the first argument, the sign of the second.\<close>

definition copysign :: "real \<Rightarrow> real \<Rightarrow> real" where
  "copysign x y = (if y < 0 then - \<bar>x\<bar> else \<bar>x\<bar>)"

definition computeBaseTimeOfFlightFunction :: "ExposinsShaping \<Rightarrow> real \<Rightarrow> real" where
  "computeBaseTimeOfFlightFunction s currentAzimuthAngle =
     (let windTravelProduct = windingParameter s * travelledAzimuthAngle s;
          logRadiiFraction = ln (initialCylindricalRadius s / finalCylindricalRadius s);
          dynamicRangeValue =
            sqrt (((logRadiiFraction + (tan (requiredGamma s) / windingParameter s) * sin windTravelProduct)
                    / (1 - cos windTravelProduct)) ^ 2
                  + (tan (requiredGamma s)) ^ 2 / (windingParameter s) ^ 2);
          dynamicRangeSign = logRadiiFraction + (tan (requiredGamma s) / windingParameter s) * sin windTravelProduct;
          dynamicRangeParameter = copysign dynamicRangeValue dynamicRangeSign;
          phaseAngle = arccos (tan (requiredGamma s) / (windingParameter s * dynamicRangeParameter));
          scalingFactor = initialCylindricalRadius s / exp (dynamicRangeParameter * sin phaseAngle);
          cosineValue = cos (windingParameter s * currentAzimuthAngle);
          sineValue = sin (windingParameter s * currentAzimuthAngle + phaseAngle);
          flightAngle = arctan (dynamicRangeParameter * windingParameter s * cosineValue);
          radiusValue = scalingFactor * exp (dynamicRangeParameter * sineValue)
      in sqrt (radiusValue ^ 3
               * ((tan flightAngle) ^ 2 + dynamicRangeParameter * (windingParameter s) ^ 2 * sineValue + 1)
               / centralBodyGravitationalParameter s))"

definition computeNormalizedTimeOfFlightExposins :: "environment \<Rightarrow> ExposinsShaping \<Rightarrow> error + real" where
  "computeNormalizedTimeOfFlightExposins env s =
     createQuadrature env (\<lambda>currentAzimuthAngle. Inr (computeBaseTimeOfFlightFunction s currentAzimuthAngle))
       (quadratureSettings s) (travelledAzimuthAngle s)"

text \<open>
  Modelled from the spec: \<^verbatim>\<open>TimeOfFlightFunctionExposins\<close>, the objective of the second
  root-finding loop, is missing from the sources. The code builds it from four callbacks
  (reset, satisfy boundary conditions, compute the time of flight, required time of
  flight); the spec (4.4) says that an evaluation sets the trial coefficient, re-solves the
  boundary conditions, computes the time of flight and returns required minus computed.
\<close>

definition evaluateExposins :: "'s TimeOfFlightFunction \<Rightarrow> real \<Rightarrow> 's \<Rightarrow> error + real \<times> 's" where
  "evaluateExposins f inputValue s =
     (let s1 = resetFreeCoefficientFunction f inputValue s
      in case satisfyBoundaryConditionsFunction f s1 of
           Inl e \<Rightarrow> Inl e
         | Inr s2 \<Rightarrow>
        (case computeTimeOfFlightFunction f s2 of
           Inl e \<Rightarrow> Inl e
         | Inr currentTimeOfFlight \<Rightarrow> Inr (getRequiredTimeOfFlightfunction f s2 - currentTimeOfFlight, s2)))"

definition timeOfFlightFunctionExposins :: "environment \<Rightarrow> ExposinsShaping TimeOfFlightFunction" where
  "timeOfFlightFunctionExposins env =
     \<lparr>resetFreeCoefficientFunction = resetRequiredGamma,
      satisfyBoundaryConditionsFunction = satisfyBoundaryConditions env,
      computeTimeOfFlightFunction = computeNormalizedTimeOfFlightExposins env,
      getRequiredTimeOfFlightfunction = getNormalizedRequiredTimeOfFlight\<rparr>"

definition iterateToMatchRequiredTimeOfFlightExposins ::
  "environment \<Rightarrow> real \<Rightarrow> real \<Rightarrow> real \<Rightarrow> ExposinsShaping \<Rightarrow> error + ExposinsShaping" where
  "iterateToMatchRequiredTimeOfFlightExposins env lowerBound upperBound initialGuess s =
     (let rootFinder = createRootFinder env lowerBound upperBound initialGuess
      in case execute rootFinder (evaluateExposins (timeOfFlightFunctionExposins env)) s of
           Inl e \<Rightarrow> Inl e
         | Inr (updatedRequiredGamma, s') \<Rightarrow> Inr s')"

subsection \<open>The constructor\<close>

text \<open>
  The constructor, in the order of its body. Its arguments carry a prime; \<open>raw\<close> is the
  object before the body runs, whose members hold no meaningful value yet.
\<close>

definition normalizeState :: "environment \<Rightarrow> vector6 \<Rightarrow> vector6" where
  "normalizeState env state =
     fromSegments (divide3 (segment_0_3 state) (ASTRONOMICAL_UNIT env))
                  (divide3 (times3 (segment_3_3 state) (JULIAN_YEAR env)) (ASTRONOMICAL_UNIT env))"

definition wrapAzimuthAngle :: "vector6 \<Rightarrow> vector6" where
  "wrapAzimuthAngle sphericalState =
     (if v1 sphericalState < 0
      then Vector6 (v0 sphericalState) (v1 sphericalState + 2 * pi) (v2 sphericalState)
                   (v3 sphericalState) (v4 sphericalState) (v5 sphericalState)
      else sphericalState)"

definition parametrizedByAzimuthAngle :: "vector6 \<Rightarrow> vector6" where
  "parametrizedByAzimuthAngle sphericalState =
     (let derivativeAzimuthAngle = v4 sphericalState / (v0 sphericalState * cos (v2 sphericalState))
      in Vector6 (v0 sphericalState) (v1 sphericalState) (v2 sphericalState)
                 (v3 sphericalState / derivativeAzimuthAngle)
                 (v4 sphericalState / derivativeAzimuthAngle)
                 (v5 sphericalState / derivativeAzimuthAngle))"

definition initialiseBoundaryStates ::
  "environment \<Rightarrow> vector6 \<Rightarrow> vector6 \<Rightarrow> real \<Rightarrow> int \<Rightarrow> real \<Rightarrow> real \<Rightarrow> real
     \<Rightarrow> ExposinsShaping \<Rightarrow> ExposinsShaping" where
  "initialiseBoundaryStates env initialState' finalState' requiredTimeOfFlight' numberOfRevolutions'
       initialValueFreeCoefficient' lowerBoundFreeCoefficient' upperBoundFreeCoefficient' raw =
     (let centralBodyGravitationalParameter' = getGravitationalParameter env;
          initialSpherical = wrapAzimuthAngle (convertCartesianToSphericalState env (normalizeState env initialState'));
          finalSpherical = wrapAzimuthAngle (convertCartesianToSphericalState env (normalizeState env finalState'))
      in raw\<lparr>numberOfRevolutions := numberOfRevolutions',
              initialValueFreeCoefficient := initialValueFreeCoefficient',
              lowerBoundFreeCoefficient := lowerBoundFreeCoefficient',
              upperBoundFreeCoefficient := upperBoundFreeCoefficient',
              initialState := normalizeState env initialState',
              finalState := normalizeState env finalState',
              requiredTimeOfFlight := requiredTimeOfFlight' / JULIAN_YEAR env,
              centralBodyGravitationalParameter :=
                centralBodyGravitationalParameter' * (JULIAN_YEAR env) ^ 2 / (ASTRONOMICAL_UNIT env) ^ 3,
              initialStateSphericalCoordinates := initialSpherical,
              finalStateSphericalCoordinates := finalSpherical,
              initialAzimuthAngle := v1 initialSpherical,
              finalAzimuthAngle :=
                (if v1 finalSpherical - v1 initialSpherical < 0
                 then v1 finalSpherical + 2 * pi * (real_of_int numberOfRevolutions' + 1)
                 else v1 finalSpherical + 2 * pi * real_of_int numberOfRevolutions'),
              initialStateParametrizedByAzimuthAngle := parametrizedByAzimuthAngle initialSpherical,
              finalStateParametrizedByAzimuthAngle := parametrizedByAzimuthAngle finalSpherical\<rparr>)"

text \<open>
  \<^verbatim>\<open>resize( n )\<close> gives a vector of \<open>n\<close> entries of no specified value (written \<open>0\<close> here);
  the loop that follows overwrites each with \<open>1.0\<close>.
\<close>

definition resize :: "nat \<Rightarrow> real list" where
  "resize n = replicate n 0"

definition initialiseCoefficients :: "ExposinsShaping \<Rightarrow> error + ExposinsShaping" where
  "initialiseCoefficients s =
     (case forLoop [0, 1, 2, 3, 4, 5, 6] (\<lambda>i coefficients. writeCoefficient coefficients i 1) (resize 7) of
        Inl e \<Rightarrow> Inl e
      | Inr radial \<Rightarrow>
     (case forLoop [0, 1, 2, 3] (\<lambda>i coefficients. writeCoefficient coefficients i 1) (resize 4) of
        Inl e \<Rightarrow> Inl e
      | Inr elevation \<Rightarrow>
     (case resetCompositeFunctionCoefficients radialBasisSize radial of
        Inl e \<Rightarrow> Inl e
      | Inr radialObject \<Rightarrow>
     (case resetCompositeFunctionCoefficients elevationBasisSize elevation of
        Inl e \<Rightarrow> Inl e
      | Inr elevationObject \<Rightarrow>
          Inr (s\<lparr>coefficientsRadialDistanceFunction := radial,
                 coefficientsElevationAngleFunction := elevation,
                 radialDistanceCompositeFunction := radialObject,
                 elevationAngleCompositeFunction := elevationObject,
                 quadratureSettings := (initialAzimuthAngle s, 16)\<rparr>)))))"

definition exposinsBounds :: "ExposinsShaping \<Rightarrow> ExposinsShaping" where
  "exposinsBounds s =
     (let s1 = s\<lparr>travelledAzimuthAngle := pi / 2 + 2 * pi * 2,
                 windingParameter := 0.08333333333,
                 initialCylindricalRadius := 1,
                 finalCylindricalRadius := 1.5\<rparr>;
          s2 = s1\<lparr>lowerBoundGamma :=
                  arctan (windingParameter s1 / 2
                    * (- ln (initialCylindricalRadius s1 / finalCylindricalRadius s1)
                         * (1 / tan ((windingParameter s1 * travelledAzimuthAngle s1) / 2))
                       - sqrt ((2 * (1 - cos (windingParameter s1 * travelledAzimuthAngle s1))) / (windingParameter s1) ^ 4
                               - (ln (initialCylindricalRadius s1 / finalCylindricalRadius s1)) ^ 2)))\<rparr>;
          s3 = s2\<lparr>upperBoundGamma :=
                  arctan (windingParameter s2 / 2
                    * (- ln (initialCylindricalRadius s2 / finalCylindricalRadius s2)
                         * (1 / tan ((windingParameter s2 * travelledAzimuthAngle s2) / 2))
                       + sqrt ((2 * (1 - cos (windingParameter s2 * travelledAzimuthAngle s2))) / (windingParameter s2) ^ 4
                               - (ln (initialCylindricalRadius s2 / finalCylindricalRadius s2)) ^ 2)))\<rparr>;
          s4 = s3\<lparr>requiredGamma := (lowerBoundGamma s3 + upperBoundGamma s3) / 2\<rparr>;
          s5 = s4\<lparr>requiredGamma := - 80 * pi / 180\<rparr>;
          s6 = s5\<lparr>requiredGamma := 0\<rparr>
      in s6\<lparr>quadratureSettings := (0, 16)\<rparr>)"

text \<open>
  \<^verbatim>\<open>Eigen::VectorXd::LinSpaced( size, low, high )\<close>: \<open>size\<close> equally spaced values from
  \<open>low\<close> to \<open>high\<close>; a single value is \<open>high\<close>; a negative size fails Eigen's assertion.
\<close>

definition LinSpaced :: "int \<Rightarrow> real \<Rightarrow> real \<Rightarrow> error + real list" where
  "LinSpaced size' low high =
     (if size' < 0 then Inl IndexOutOfRange
      else if size' = 1 then Inr [high]
      else Inr (map (\<lambda>i. low + real i * ((high - low) / (real_of_int size' - 1))) [0..<nat size']))"

text \<open>\<^verbatim>\<open>dataToInterpolate[ key ] = x\<close> on a \<^verbatim>\<open>std::map\<close>: the key is added or its entry replaced.\<close>

fun assign :: "real \<Rightarrow> real \<Rightarrow> (real \<times> real) list \<Rightarrow> (real \<times> real) list" where
  "assign key x [] = [(key, x)]"
| "assign key x ((key', x') # rest) =
     (if key = key' then (key, x) # rest else (key', x') # assign key x rest)"

fun associatedEpochs ::
  "environment \<Rightarrow> ExposinsShaping \<Rightarrow> real list \<Rightarrow> (real \<times> real) list \<Rightarrow> error + (real \<times> real) list" where
  "associatedEpochs env s [] dataToInterpolate = Inr dataToInterpolate"
| "associatedEpochs env s (azimuthAngle # rest) dataToInterpolate =
     (case computeCurrentTimeFromAzimuthAngle env s azimuthAngle of
        Inl e \<Rightarrow> Inl e
      | Inr time \<Rightarrow> associatedEpochs env s rest (assign (time * JULIAN_YEAR env) azimuthAngle dataToInterpolate))"

definition createInterpolator :: "environment \<Rightarrow> ExposinsShaping \<Rightarrow> error + ExposinsShaping" where
  "createInterpolator env s =
     (let initialStepSize = initialTimeStep env
      in case computeNormalizedTimeOfFlight env s of
           Inl e \<Rightarrow> Inl e
         | Inr normalizedTimeOfFlight \<Rightarrow>
        (case LinSpaced \<lceil>normalizedTimeOfFlight * JULIAN_YEAR env / initialStepSize\<rceil>
                (initialAzimuthAngle s) (finalAzimuthAngle s) of
           Inl e \<Rightarrow> Inl e
         | Inr azimuthAnglesToComputeAssociatedEpochs \<Rightarrow>
        (case associatedEpochs env s azimuthAnglesToComputeAssociatedEpochs [] of
           Inl e \<Rightarrow> Inl e
         | Inr dataToInterpolate \<Rightarrow>
             if createOneDimensionalInterpolator env dataToInterpolate
             then Inr (s\<lparr>interpolator := dataToInterpolate\<rparr>)
             else Inl InterpolationError)))"

text \<open>
  The whole constructor. The lines that only print (they call the exponential-sinusoid
  thrust and delta-V functions and discard the values) are left out.
\<close>

definition constructor ::
  "environment \<Rightarrow> vector6 \<Rightarrow> vector6 \<Rightarrow> real \<Rightarrow> int \<Rightarrow> real \<Rightarrow> real \<Rightarrow> real
     \<Rightarrow> ExposinsShaping \<Rightarrow> error + ExposinsShaping" where
  "constructor env initialState' finalState' requiredTimeOfFlight' numberOfRevolutions'
       initialValueFreeCoefficient' lowerBoundFreeCoefficient' upperBoundFreeCoefficient' raw =
     (case initialiseCoefficients
             (initialiseBoundaryStates env initialState' finalState' requiredTimeOfFlight' numberOfRevolutions'
                initialValueFreeCoefficient' lowerBoundFreeCoefficient' upperBoundFreeCoefficient' raw) of
        Inl e \<Rightarrow> Inl e
      | Inr s1 \<Rightarrow>
     (case iterateToMatchRequiredTimeOfFlight env (lowerBoundFreeCoefficient s1) (upperBoundFreeCoefficient s1)
             (initialValueFreeCoefficient s1) s1 of
        Inl e \<Rightarrow> Inl e
      | Inr s2 \<Rightarrow>
     (let s3 = exposinsBounds s2
      in case iterateToMatchRequiredTimeOfFlightExposins env (lowerBoundGamma s3) (upperBoundGamma s3)
                (requiredGamma s3) s3 of
           Inl e \<Rightarrow> Inl e
         | Inr s4 \<Rightarrow>
             createInterpolator env
               (s4\<lparr>requiredGamma := - 25 * pi / 180,
                   quadratureSettings := (initialAzimuthAngle s4, 16)\<rparr>))))"

definition getTravelledAzimuthAngle :: "ExposinsShaping \<Rightarrow> real" where
  "getTravelledAzimuthAngle s = travelledAzimuthAngle s"


definition getFinalAzimuthAngle :: "ExposinsShaping \<Rightarrow> real" where
  "getFinalAzimuthAngle s = finalAzimuthAngle s"

subsection \<open>Predicates used in the statements\<close>

definition coefficientSizes :: "ExposinsShaping \<Rightarrow> bool" where
  "coefficientSizes s =
     (length (coefficientsRadialDistanceFunction s) = 7
      \<and> length (coefficientsElevationAngleFunction s) = 4
      \<and> length (radialDistanceCompositeFunction s) = 7
      \<and> length (elevationAngleCompositeFunction s) = 4)"

definition sameAngles :: "ExposinsShaping \<Rightarrow> ExposinsShaping \<Rightarrow> bool" where
  "sameAngles s s' =
     (initialAzimuthAngle s' = initialAzimuthAngle s
      \<and> finalAzimuthAngle s' = finalAzimuthAngle s
      \<and> travelledAzimuthAngle s' = travelledAzimuthAngle s
      \<and> initialStateSphericalCoordinates s' = initialStateSphericalCoordinates s
      \<and> finalStateSphericalCoordinates s' = finalStateSphericalCoordinates s)"


section \<open>An example configuration\<close>

text \<open>
  A small configuration on which the definitions evaluate, with simple collaborators in the
  place of the library's: a quadratic radial function and a planar trajectory; a rectangle
  rule with its one node at the lower bound in the place of the Gaussian rule with 16
  nodes; a root finder with an iteration budget of one trial, which returns its last
  iterate; an interpolator that accepts every table but the empty one; the identity in the
  place of the two coordinate conversions and of the matrix inverse. The theorems below
  hold for every configuration; this one shows that their hypotheses can be met.
\<close>

definition exampleRadialFunctions :: compositeFunctionClass where
  "exampleRadialFunctions =
     \<lparr>getComponentFunctionCurrentValue = (\<lambda>i x. if i = 0 then 1 else if i = 1 then x else if i = 2 then x ^ 2 else 0),
      getComponentFunctionFirstDerivative = (\<lambda>i x. if i = 1 then 1 else if i = 2 then 2 * x else 0),
      getComponentFunctionSecondDerivative = (\<lambda>i x. if i = 2 then 2 else 0),
      evaluateCompositeFunction = (\<lambda>a x. a ! 0 + a ! 1 * x + a ! 2 * x ^ 2),
      evaluateCompositeFunctionFirstDerivative = (\<lambda>a x. a ! 1 + 2 * a ! 2 * x),
      evaluateCompositeFunctionSecondDerivative = (\<lambda>a x. 2 * a ! 2),
      evaluateCompositeFunctionThirdDerivative = (\<lambda>a x. 0)\<rparr>"

definition exampleElevationFunctions :: compositeFunctionClass where
  "exampleElevationFunctions =
     \<lparr>getComponentFunctionCurrentValue = (\<lambda>i x. 0),
      getComponentFunctionFirstDerivative = (\<lambda>i x. 0),
      getComponentFunctionSecondDerivative = (\<lambda>i x. 0),
      evaluateCompositeFunction = (\<lambda>a x. 0),
      evaluateCompositeFunctionFirstDerivative = (\<lambda>a x. 0),
      evaluateCompositeFunctionSecondDerivative = (\<lambda>a x. 0),
      evaluateCompositeFunctionThirdDerivative = (\<lambda>a x. 0)\<rparr>"

definition exampleEnvironment :: environment where
  "exampleEnvironment =
     \<lparr>ASTRONOMICAL_UNIT = 2,
      JULIAN_YEAR = 4,
      getGravitationalParameter = 1 / 2,
      initialTimeStep = 1,
      convertCartesianToSphericalState = (\<lambda>v. v),
      convertSphericalToCartesianState = (\<lambda>v. v),
      radialFunctions = exampleRadialFunctions,
      elevationFunctions = exampleElevationFunctions,
      matrixInverse = (\<lambda>M. M),
      quadratureNodes = (\<lambda>settings upperBound. [(fst settings, upperBound - fst settings)]),
      createRootFinder = (\<lambda>lowerBound upperBound initialGuess. Trial initialGuess (\<lambda>residual. Root initialGuess)),
      createOneDimensionalInterpolator = (\<lambda>dataToInterpolate. dataToInterpolate \<noteq> [])\<rparr>"

definition exampleShape :: ExposinsShaping where
  "exampleShape =
     \<lparr>initialState = Vector6 1 0 0 0 1 0,
      finalState = Vector6 1 1 0 0 1 0,
      requiredTimeOfFlight = 1,
      numberOfRevolutions = 0,
      initialValueFreeCoefficient = 0,
      lowerBoundFreeCoefficient = - 1,
      upperBoundFreeCoefficient = 1,
      centralBodyGravitationalParameter = 1,
      initialStateSphericalCoordinates = Vector6 1 0 0 0 1 0,
      finalStateSphericalCoordinates = Vector6 1 1 0 0 1 0,
      initialAzimuthAngle = 0,
      finalAzimuthAngle = 1,
      initialStateParametrizedByAzimuthAngle = Vector6 1 0 0 0 1 0,
      finalStateParametrizedByAzimuthAngle = Vector6 1 1 0 0 1 0,
      coefficientsRadialDistanceFunction = [1, 1, 1, 1, 1, 1, 1],
      coefficientsElevationAngleFunction = [1, 1, 1, 1],
      radialDistanceCompositeFunction = [1, 1, 1, 1, 1, 1, 1],
      elevationAngleCompositeFunction = [1, 1, 1, 1],
      quadratureSettings = (0, 16),
      travelledAzimuthAngle = 0,
      windingParameter = 0,
      initialCylindricalRadius = 0,
      finalCylindricalRadius = 0,
      lowerBoundGamma = 0,
      upperBoundGamma = 0,
      requiredGamma = 0,
      interpolator = []\<rparr>"

definition exampleInitialState :: vector6 where
  "exampleInitialState = Vector6 2 0 0 0 (1 / 2) 0"

definition exampleFinalState :: "real \<Rightarrow> real \<Rightarrow> vector6" where
  "exampleFinalState radius azimuth = Vector6 (2 * radius) (2 * azimuth) 0 0 (1 / 2) 0"

definition exampleBoundary :: "real \<Rightarrow> real \<Rightarrow> ExposinsShaping \<Rightarrow> bool" where
  "exampleBoundary radius azimuth s =
     (0 < radius
      \<and> initialAzimuthAngle s = 0
      \<and> 0 \<le> finalAzimuthAngle s
      \<and> initialStateSphericalCoordinates s = Vector6 1 0 0 0 1 0
      \<and> finalStateSphericalCoordinates s = Vector6 radius azimuth 0 0 1 0
      \<and> initialStateParametrizedByAzimuthAngle s = Vector6 1 0 0 0 1 0
      \<and> finalStateParametrizedByAzimuthAngle s = Vector6 radius azimuth 0 0 radius 0
      \<and> centralBodyGravitationalParameter s = 1
      \<and> initialValueFreeCoefficient s = 0
      \<and> coefficientSizes s)"

text \<open>An object before construction: every member at zero or empty.\<close>

definition exampleRaw :: ExposinsShaping where
  "exampleRaw =
     \<lparr>initialState = Vector6 0 0 0 0 0 0,
      finalState = Vector6 0 0 0 0 0 0,
      requiredTimeOfFlight = 0,
      numberOfRevolutions = 0,
      initialValueFreeCoefficient = 0,
      lowerBoundFreeCoefficient = 0,
      upperBoundFreeCoefficient = 0,
      centralBodyGravitationalParameter = 0,
      initialStateSphericalCoordinates = Vector6 0 0 0 0 0 0,
      finalStateSphericalCoordinates = Vector6 0 0 0 0 0 0,
      initialAzimuthAngle = 0,
      finalAzimuthAngle = 0,
      initialStateParametrizedByAzimuthAngle = Vector6 0 0 0 0 0 0,
      finalStateParametrizedByAzimuthAngle = Vector6 0 0 0 0 0 0,
      coefficientsRadialDistanceFunction = [],
      coefficientsElevationAngleFunction = [],
      radialDistanceCompositeFunction = [],
      elevationAngleCompositeFunction = [],
      quadratureSettings = (0, 0),
      travelledAzimuthAngle = 0,
      windingParameter = 0,
      initialCylindricalRadius = 0,
      finalCylindricalRadius = 0,
      lowerBoundGamma = 0,
      upperBoundGamma = 0,
      requiredGamma = 0,
      interpolator = []\<rparr>"

section \<open>Properties\<close>

lemma example_nodes:
  "quadratureNodes exampleEnvironment settings upperBound = [(fst settings, upperBound - fst settings)]"
  by (simp add: exampleEnvironment_def)

lemma example_scalar:
  "computeScalarFunctionTimeEquation exampleEnvironment (resetValueFreeCoefficient x exampleShape) 0 = 1"
  by (simp add: computeScalarFunctionTimeEquation_def exampleEnvironment_def exampleShape_def
      exampleRadialFunctions_def exampleElevationFunctions_def resetValueFreeCoefficient_def)

lemma example_integrand:
  "derivativeTimeFunction exampleEnvironment (resetValueFreeCoefficient x exampleShape) 0 = Inr 1"
  unfolding derivativeTimeFunction_def example_scalar
  by (simp add: exampleEnvironment_def exampleShape_def exampleRadialFunctions_def
      resetValueFreeCoefficient_def)

lemma example_tof:
  "computeNormalizedTimeOfFlight exampleEnvironment (resetValueFreeCoefficient x exampleShape) = Inr 1"
proof -
  have "quadratureSettings (resetValueFreeCoefficient x exampleShape) = (0, 16)"
    and "finalAzimuthAngle (resetValueFreeCoefficient x exampleShape) = 1"
    by (simp_all add: resetValueFreeCoefficient_def exampleShape_def)
  then show ?thesis
    by (simp add: computeNormalizedTimeOfFlight_def createQuadrature_def example_nodes
        example_integrand)
qed

text \<open>
  Claim C5. For every trial value \<open>x\<close> of the free coefficient, the objective of the root
  finder returns the required time of flight minus the time of flight computed after the
  free coefficient has been set to \<open>x\<close>, and the root finder continues from that residual.
\<close>

theorem C5_evaluate_returns_residual:
  assumes "computeNormalizedTimeOfFlight env (resetValueFreeCoefficient x s) = Inr t"
  shows "evaluate (timeOfFlightFunction env) x s
           = Inr (requiredTimeOfFlight s - t, resetValueFreeCoefficient x s)
       \<and> execute (Trial x next) (evaluate (timeOfFlightFunction env)) s
           = execute (next (requiredTimeOfFlight s - t)) (evaluate (timeOfFlightFunction env))
               (resetValueFreeCoefficient x s)"
proof -
  have "evaluate (timeOfFlightFunction env) x s
          = Inr (requiredTimeOfFlight s - t, resetValueFreeCoefficient x s)"
    using assms
    by (simp add: evaluate_def timeOfFlightFunction_def getNormalizedRequiredTimeOfFlight_def
        resetValueFreeCoefficient_def)
  then show ?thesis by simp
qed

theorem C5_evaluate_returns_residual_witness:
  "computeNormalizedTimeOfFlight exampleEnvironment (resetValueFreeCoefficient 3 exampleShape) = Inr 1
   \<and> evaluate (timeOfFlightFunction exampleEnvironment) 3 exampleShape
       = Inr (0, resetValueFreeCoefficient 3 exampleShape)
   \<and> execute (Trial 3 (\<lambda>residual. Root (3 + residual))) (evaluate (timeOfFlightFunction exampleEnvironment)) exampleShape
       = Inr (3, resetValueFreeCoefficient 3 exampleShape)"
  using C5_evaluate_returns_residual [OF example_tof, of 3 "\<lambda>residual. Root (3 + residual)"]
  by (simp add: example_tof) (simp add: exampleShape_def)

lemma length7_explicit:
  "length (xs :: real list) = 7 \<Longrightarrow> xs = [xs ! 0, xs ! 1, xs ! 2, xs ! 3, xs ! 4, xs ! 5, xs ! 6]"
  by (auto simp add: numeral_eq_Suc length_Suc_conv)

lemma length4_explicit:
  "length (xs :: real list) = 4 \<Longrightarrow> xs = [xs ! 0, xs ! 1, xs ! 2, xs ! 3]"
  by (auto simp add: numeral_eq_Suc length_Suc_conv)

lemma radial_writes:
  assumes "length xs = 7"
  shows "forLoop [0, 1, 2, 3, 4, 5] (radialCoefficientWrite c) xs
           = Inr [c ! 0, c ! 1, xs ! 2, c ! 2, c ! 3, c ! 4, c ! 5]"
proof -
  obtain a0 a1 a2 a3 a4 a5 a6 where xs: "xs = [a0, a1, a2, a3, a4, a5, a6]"
    using length7_explicit [OF assms] by blast
  show ?thesis
    by (simp add: xs radialCoefficientWrite_def writeCoefficient_def)
qed

lemma elevation_writes:
  assumes "length xs = 4"
  shows "forLoop [0, 1, 2, 3] (elevationCoefficientWrite c) xs = Inr [c ! 6, c ! 7, c ! 8, c ! 9]"
proof -
  obtain a0 a1 a2 a3 where xs: "xs = [a0, a1, a2, a3]"
    using length4_explicit [OF assms] by blast
  show ?thesis
    by (simp add: xs elevationCoefficientWrite_def writeCoefficient_def)
qed

lemma satisfyBoundaryConditions_result:
  assumes "length (coefficientsRadialDistanceFunction s) = 7"
      and "length (coefficientsElevationAngleFunction s) = 4"
  shows "satisfyBoundaryConditions env s
           = Inr (s\<lparr>coefficientsRadialDistanceFunction :=
                      [compositeFunctionCoefficients env s ! 0, compositeFunctionCoefficients env s ! 1,
                       initialValueFreeCoefficient s,
                       compositeFunctionCoefficients env s ! 2, compositeFunctionCoefficients env s ! 3,
                       compositeFunctionCoefficients env s ! 4, compositeFunctionCoefficients env s ! 5],
                    coefficientsElevationAngleFunction :=
                      [compositeFunctionCoefficients env s ! 6, compositeFunctionCoefficients env s ! 7,
                       compositeFunctionCoefficients env s ! 8, compositeFunctionCoefficients env s ! 9],
                    radialDistanceCompositeFunction :=
                      [compositeFunctionCoefficients env s ! 0, compositeFunctionCoefficients env s ! 1,
                       initialValueFreeCoefficient s,
                       compositeFunctionCoefficients env s ! 2, compositeFunctionCoefficients env s ! 3,
                       compositeFunctionCoefficients env s ! 4, compositeFunctionCoefficients env s ! 5],
                    elevationAngleCompositeFunction :=
                      [compositeFunctionCoefficients env s ! 6, compositeFunctionCoefficients env s ! 7,
                       compositeFunctionCoefficients env s ! 8, compositeFunctionCoefficients env s ! 9]\<rparr>)"
  unfolding satisfyBoundaryConditions_def radial_writes [OF assms(1)] elevation_writes [OF assms(2)]
  by (simp add: writeCoefficient_def resetCompositeFunctionCoefficients_def radialBasisSize_def
      elevationBasisSize_def)

lemma compositeFunctionCoefficients_eq:
  "compositeFunctionCoefficients env s =
     matrixTimesVector (matrixInverse env (matrixBoundaryConditions env s))
       (vectorMinus (vectorBoundaryValues s)
          (vectorTimes (vectorSecondComponentContribution env s) (initialValueFreeCoefficient s)))"
  by (simp add: compositeFunctionCoefficients_def computeInverseMatrixBoundaryConditions_def)

text \<open>
  Claim C3. For every value of the free coefficient, \<^verbatim>\<open>satisfyBoundaryConditions\<close> computes the
  dependent coefficients as the inverse of the boundary matrix applied to the boundary
  values minus the free coefficient times its column, puts them at slots 0, 1, 3, 4, 5, 6
  of the radial coefficient vector and at the four slots of the elevation coefficient
  vector, puts the free coefficient at slot 2 of the radial vector, and resets both
  composite functions with the two vectors.
\<close>

theorem C3_satisfyBoundaryConditions_solves_and_installs:
  assumes "length (coefficientsRadialDistanceFunction s) = 7"
      and "length (coefficientsElevationAngleFunction s) = 4"
  shows "let c = matrixTimesVector (matrixInverse env (matrixBoundaryConditions env s))
                   (vectorMinus (vectorBoundaryValues s)
                      (vectorTimes (vectorSecondComponentContribution env s) (initialValueFreeCoefficient s)));
             radial = [c ! 0, c ! 1, initialValueFreeCoefficient s, c ! 2, c ! 3, c ! 4, c ! 5];
             elevation = [c ! 6, c ! 7, c ! 8, c ! 9]
         in satisfyBoundaryConditions env s
              = Inr (s\<lparr>coefficientsRadialDistanceFunction := radial,
                       coefficientsElevationAngleFunction := elevation,
                       radialDistanceCompositeFunction := radial,
                       elevationAngleCompositeFunction := elevation\<rparr>)"
  unfolding Let_def satisfyBoundaryConditions_result [OF assms]
    compositeFunctionCoefficients_eq [symmetric]
  by simp

subsection \<open>What the loops and the constructor leave unchanged\<close>

lemma execute_preserves:
  assumes step: "\<And>x s r s'. P s \<Longrightarrow> f x s = Inr (r, s') \<Longrightarrow> P s'"
  shows "P s \<Longrightarrow> execute rf f s = Inr (x, s') \<Longrightarrow> P s'"
proof (induction rf arbitrary: s)
  case (Root y)
  then show ?case by simp
next
  case GiveUp
  then show ?case by simp
next
  case (Trial y "next")
  from Trial.prems(2) obtain r s1 where f: "f y s = Inr (r, s1)"
    and rest: "execute (next r) f s1 = Inr (x, s')"
    by (auto split: sum.splits)
  have "P s1" using step [OF Trial.prems(1) f] .
  then show ?case using Trial.IH rest by blast
qed

lemma initialiseCoefficients_eq:
  "initialiseCoefficients s =
     Inr (s\<lparr>coefficientsRadialDistanceFunction := [1, 1, 1, 1, 1, 1, 1],
            coefficientsElevationAngleFunction := [1, 1, 1, 1],
            radialDistanceCompositeFunction := [1, 1, 1, 1, 1, 1, 1],
            elevationAngleCompositeFunction := [1, 1, 1, 1],
            quadratureSettings := (initialAzimuthAngle s, 16)\<rparr>)"
  by (simp add: initialiseCoefficients_def resize_def writeCoefficient_def
      resetCompositeFunctionCoefficients_def radialBasisSize_def elevationBasisSize_def
      numeral_eq_Suc)

lemma satisfyBoundaryConditions_sizes:
  assumes "satisfyBoundaryConditions env s = Inr s'"
  shows "length (radialDistanceCompositeFunction s') = 7
       \<and> length (elevationAngleCompositeFunction s') = 4
       \<and> coefficientsRadialDistanceFunction s' = radialDistanceCompositeFunction s'
       \<and> coefficientsElevationAngleFunction s' = elevationAngleCompositeFunction s'"
  using assms
  by (auto simp add: satisfyBoundaryConditions_def resetCompositeFunctionCoefficients_def
      radialBasisSize_def elevationBasisSize_def split: sum.splits if_splits)

lemma satisfyBoundaryConditions_sameAngles:
  assumes "satisfyBoundaryConditions env s = Inr s'"
  shows "sameAngles s s'"
  using assms
  by (auto simp add: satisfyBoundaryConditions_def sameAngles_def split: sum.splits)

lemma evaluate_state:
  assumes "evaluate (timeOfFlightFunction env) x s = Inr (r, s')"
  shows "s' = resetValueFreeCoefficient x s"
  using assms
  by (auto simp add: evaluate_def timeOfFlightFunction_def Let_def split: sum.splits)

lemma evaluateExposins_state:
  assumes "evaluateExposins (timeOfFlightFunctionExposins env) x s = Inr (r, s')"
  shows "satisfyBoundaryConditions env (resetRequiredGamma x s) = Inr s'"
  using assms
  by (auto simp add: evaluateExposins_def timeOfFlightFunctionExposins_def Let_def split: sum.splits)

lemma iterateToMatchRequiredTimeOfFlight_preserves:
  assumes "\<And>x s. P s \<Longrightarrow> P (resetValueFreeCoefficient x s)"
      and "P s"
      and "iterateToMatchRequiredTimeOfFlight env lo up guess s = Inr s'"
  shows "P s'"
proof -
  from assms(3) obtain x where
    "execute (createRootFinder env lo up guess) (evaluate (timeOfFlightFunction env)) s = Inr (x, s')"
    by (auto simp add: iterateToMatchRequiredTimeOfFlight_def Let_def split: sum.splits)
  moreover have "\<And>x s r s'. P s \<Longrightarrow> evaluate (timeOfFlightFunction env) x s = Inr (r, s') \<Longrightarrow> P s'"
    using assms(1) evaluate_state by blast
  ultimately show ?thesis
    using execute_preserves [of P "evaluate (timeOfFlightFunction env)"] assms(2) by blast
qed

lemma iterateToMatchRequiredTimeOfFlightExposins_preserves:
  assumes "\<And>x s s'. P s \<Longrightarrow> satisfyBoundaryConditions env (resetRequiredGamma x s) = Inr s' \<Longrightarrow> P s'"
      and "P s"
      and "iterateToMatchRequiredTimeOfFlightExposins env lo up guess s = Inr s'"
  shows "P s'"
proof -
  from assms(3) obtain x where
    "execute (createRootFinder env lo up guess) (evaluateExposins (timeOfFlightFunctionExposins env)) s
       = Inr (x, s')"
    by (auto simp add: iterateToMatchRequiredTimeOfFlightExposins_def Let_def split: sum.splits)
  moreover have "\<And>x s r s'. P s
      \<Longrightarrow> evaluateExposins (timeOfFlightFunctionExposins env) x s = Inr (r, s') \<Longrightarrow> P s'"
    using assms(1) evaluateExposins_state by blast
  ultimately show ?thesis
    using execute_preserves [of P "evaluateExposins (timeOfFlightFunctionExposins env)"] assms(2)
    by blast
qed

lemma createInterpolator_state:
  assumes "createInterpolator env s = Inr s'"
  shows "\<exists>dataToInterpolate. s' = s\<lparr>interpolator := dataToInterpolate\<rparr>"
  using assms
  by (auto simp add: createInterpolator_def Let_def split: sum.splits if_splits)

text \<open>The stages of a construction that succeeds.\<close>

lemma constructor_stages:
  assumes "constructor env i f t n c lo up raw = Inr s"
  obtains s1 s2 s4 dataToInterpolate where
    "initialiseCoefficients (initialiseBoundaryStates env i f t n c lo up raw) = Inr s1"
    "iterateToMatchRequiredTimeOfFlight env (lowerBoundFreeCoefficient s1) (upperBoundFreeCoefficient s1)
       (initialValueFreeCoefficient s1) s1 = Inr s2"
    "iterateToMatchRequiredTimeOfFlightExposins env (lowerBoundGamma (exposinsBounds s2))
       (upperBoundGamma (exposinsBounds s2)) (requiredGamma (exposinsBounds s2)) (exposinsBounds s2) = Inr s4"
    "s = s4\<lparr>requiredGamma := - 25 * pi / 180,
            quadratureSettings := (initialAzimuthAngle s4, 16),
            interpolator := dataToInterpolate\<rparr>"
proof -
  from assms obtain s1 s2 s4 where
    1: "initialiseCoefficients (initialiseBoundaryStates env i f t n c lo up raw) = Inr s1"
    and 2: "iterateToMatchRequiredTimeOfFlight env (lowerBoundFreeCoefficient s1) (upperBoundFreeCoefficient s1)
       (initialValueFreeCoefficient s1) s1 = Inr s2"
    and 3: "iterateToMatchRequiredTimeOfFlightExposins env (lowerBoundGamma (exposinsBounds s2))
       (upperBoundGamma (exposinsBounds s2)) (requiredGamma (exposinsBounds s2)) (exposinsBounds s2) = Inr s4"
    and 4: "createInterpolator env (s4\<lparr>requiredGamma := - 25 * pi / 180,
            quadratureSettings := (initialAzimuthAngle s4, 16)\<rparr>) = Inr s"
    unfolding constructor_def Let_def by (auto split: sum.splits)
  from createInterpolator_state [OF 4] obtain d where
    "s = s4\<lparr>requiredGamma := - 25 * pi / 180,
            quadratureSettings := (initialAzimuthAngle s4, 16), interpolator := d\<rparr>"
    by blast
  with 1 2 3 show ?thesis using that by blast
qed

subsection \<open>The constructed object\<close>

lemma exposinsBounds_fields:
  "travelledAzimuthAngle (exposinsBounds s) = pi / 2 + 2 * pi * 2"
  "initialAzimuthAngle (exposinsBounds s) = initialAzimuthAngle s"
  "finalAzimuthAngle (exposinsBounds s) = finalAzimuthAngle s"
  "coefficientSizes (exposinsBounds s) = coefficientSizes s"
  "initialStateSphericalCoordinates (exposinsBounds s) = initialStateSphericalCoordinates s"
  "finalStateSphericalCoordinates (exposinsBounds s) = finalStateSphericalCoordinates s"
  by (simp_all add: exposinsBounds_def Let_def coefficientSizes_def)

lemma initialise_fields:
  assumes "initialiseCoefficients (initialiseBoundaryStates env i f t n c lo up raw) = Inr s1"
  shows "initialAzimuthAngle s1 = v1 (wrapAzimuthAngle (convertCartesianToSphericalState env (normalizeState env i)))"
    and "finalAzimuthAngle s1 =
           (if v1 (wrapAzimuthAngle (convertCartesianToSphericalState env (normalizeState env f)))
                 - v1 (wrapAzimuthAngle (convertCartesianToSphericalState env (normalizeState env i))) < 0
            then v1 (wrapAzimuthAngle (convertCartesianToSphericalState env (normalizeState env f)))
                   + 2 * pi * (real_of_int n + 1)
            else v1 (wrapAzimuthAngle (convertCartesianToSphericalState env (normalizeState env f)))
                   + 2 * pi * real_of_int n)"
    and "coefficientSizes s1"
    and "initialStateSphericalCoordinates s1 = wrapAzimuthAngle (convertCartesianToSphericalState env (normalizeState env i))"
    and "finalStateSphericalCoordinates s1 = wrapAzimuthAngle (convertCartesianToSphericalState env (normalizeState env f))"
  using assms unfolding initialiseCoefficients_eq
  by (auto simp add: initialiseBoundaryStates_def Let_def coefficientSizes_def)

lemma constructor_angles:
  assumes "constructor env i f t n c lo up raw = Inr s"
  shows "initialAzimuthAngle s = v1 (wrapAzimuthAngle (convertCartesianToSphericalState env (normalizeState env i)))"
    and "finalAzimuthAngle s =
           (if v1 (wrapAzimuthAngle (convertCartesianToSphericalState env (normalizeState env f)))
                 - v1 (wrapAzimuthAngle (convertCartesianToSphericalState env (normalizeState env i))) < 0
            then v1 (wrapAzimuthAngle (convertCartesianToSphericalState env (normalizeState env f)))
                   + 2 * pi * (real_of_int n + 1)
            else v1 (wrapAzimuthAngle (convertCartesianToSphericalState env (normalizeState env f)))
                   + 2 * pi * real_of_int n)"
    and "travelledAzimuthAngle s = pi / 2 + 2 * pi * 2"
    and "coefficientSizes s"
    and "initialStateSphericalCoordinates s = wrapAzimuthAngle (convertCartesianToSphericalState env (normalizeState env i))"
    and "finalStateSphericalCoordinates s = wrapAzimuthAngle (convertCartesianToSphericalState env (normalizeState env f))"
proof -
  from assms obtain s1 s2 s4 d where
    1: "initialiseCoefficients (initialiseBoundaryStates env i f t n c lo up raw) = Inr s1"
    and 2: "iterateToMatchRequiredTimeOfFlight env (lowerBoundFreeCoefficient s1) (upperBoundFreeCoefficient s1)
       (initialValueFreeCoefficient s1) s1 = Inr s2"
    and 3: "iterateToMatchRequiredTimeOfFlightExposins env (lowerBoundGamma (exposinsBounds s2))
       (upperBoundGamma (exposinsBounds s2)) (requiredGamma (exposinsBounds s2)) (exposinsBounds s2) = Inr s4"
    and 4: "s = s4\<lparr>requiredGamma := - 25 * pi / 180,
            quadratureSettings := (initialAzimuthAngle s4, 16), interpolator := d\<rparr>"
    by (rule constructor_stages)
  let ?P = "\<lambda>u. initialAzimuthAngle u = initialAzimuthAngle s1 \<and> finalAzimuthAngle u = finalAzimuthAngle s1
                 \<and> initialStateSphericalCoordinates u = initialStateSphericalCoordinates s1
                 \<and> finalStateSphericalCoordinates u = finalStateSphericalCoordinates s1
                 \<and> coefficientSizes u"
  have P1: "?P s1" using initialise_fields(3) [OF 1] by simp
  have P2: "?P s2"
    by (rule iterateToMatchRequiredTimeOfFlight_preserves [where P = ?P, OF _ P1 2])
       (simp add: resetValueFreeCoefficient_def coefficientSizes_def)
  let ?Q = "\<lambda>u. ?P u \<and> travelledAzimuthAngle u = pi / 2 + 2 * pi * 2"
  have Q3: "?Q (exposinsBounds s2)" using P2 by (simp add: exposinsBounds_fields)
  have step: "\<And>x u u'. ?Q u \<Longrightarrow> satisfyBoundaryConditions env (resetRequiredGamma x u) = Inr u' \<Longrightarrow> ?Q u'"
  proof -
    fix x u u'
    assume Q: "?Q u" and sat: "satisfyBoundaryConditions env (resetRequiredGamma x u) = Inr u'"
    have "sameAngles (resetRequiredGamma x u) u'" by (rule satisfyBoundaryConditions_sameAngles [OF sat])
    moreover have "coefficientSizes u'"
      using satisfyBoundaryConditions_sizes [OF sat] by (simp add: coefficientSizes_def)
    ultimately show "?Q u'" using Q by (simp add: sameAngles_def resetRequiredGamma_def)
  qed
  have Q4: "?Q s4"
    by (rule iterateToMatchRequiredTimeOfFlightExposins_preserves [where P = ?Q, OF step Q3 3])
  have Q: "?Q s" using Q4 unfolding 4 by (simp add: coefficientSizes_def)
  show "initialAzimuthAngle s = v1 (wrapAzimuthAngle (convertCartesianToSphericalState env (normalizeState env i)))"
    using Q initialise_fields(1) [OF 1] by simp
  show "finalAzimuthAngle s =
           (if v1 (wrapAzimuthAngle (convertCartesianToSphericalState env (normalizeState env f)))
                 - v1 (wrapAzimuthAngle (convertCartesianToSphericalState env (normalizeState env i))) < 0
            then v1 (wrapAzimuthAngle (convertCartesianToSphericalState env (normalizeState env f)))
                   + 2 * pi * (real_of_int n + 1)
            else v1 (wrapAzimuthAngle (convertCartesianToSphericalState env (normalizeState env f)))
                   + 2 * pi * real_of_int n)"
    using Q initialise_fields(2) [OF 1] by simp
  show "travelledAzimuthAngle s = pi / 2 + 2 * pi * 2" using Q by simp
  show "coefficientSizes s" using Q by simp
  show "initialStateSphericalCoordinates s = wrapAzimuthAngle (convertCartesianToSphericalState env (normalizeState env i))"
    using Q initialise_fields(4) [OF 1] by simp
  show "finalStateSphericalCoordinates s = wrapAzimuthAngle (convertCartesianToSphericalState env (normalizeState env f))"
    using Q initialise_fields(5) [OF 1] by simp
qed

text \<open>
  Claim C10. Whatever the arguments of the constructor, once construction has succeeded
  \<^verbatim>\<open>getTravelledAzimuthAngle()\<close> returns the constant \<open>pi / 2 + 4 * pi\<close>; the difference of
  the final and the initial azimuth angle plays no part.
\<close>

theorem C10_travelled_azimuth_angle_constant:
  assumes "constructor env initialState' finalState' requiredTimeOfFlight' numberOfRevolutions'
             initialValueFreeCoefficient' lowerBoundFreeCoefficient' upperBoundFreeCoefficient' raw = Inr s"
  shows "getTravelledAzimuthAngle s = pi / 2 + 4 * pi"
  using constructor_angles(3) [OF assms] by (simp add: getTravelledAzimuthAngle_def)



subsection \<open>The last stage of the constructor\<close>






subsection \<open>The example configuration can be constructed\<close>

lemma example_createQuadrature:
  "createQuadrature exampleEnvironment f settings upperBound =
     (case f (fst settings) of Inl e \<Rightarrow> Inl e | Inr y \<Rightarrow> Inr ((upperBound - fst settings) * y))"
  by (simp add: createQuadrature_def example_nodes split: sum.splits)

lemma example_radicand:
  assumes "radialDistanceCompositeFunction s = [a0, a1, a2, a3, a4, a5, a6]"
  shows "computeScalarFunctionTimeEquation exampleEnvironment s 0 = - (2 * a2) + 2 * a1 ^ 2 / a0 + a0"
  using assms
  by (simp add: computeScalarFunctionTimeEquation_def exampleEnvironment_def
      exampleRadialFunctions_def exampleElevationFunctions_def)

lemma example_time:
  assumes "radialDistanceCompositeFunction s = [1, a1, a2, a3, a4, a5, a6]"
      and "centralBodyGravitationalParameter s = 1"
      and "fst (quadratureSettings s) = 0"
      and "0 \<le> - (2 * a2) + 2 * a1 ^ 2 + 1"
  shows "computeCurrentTimeFromAzimuthAngle exampleEnvironment s upperBound
           = Inr (upperBound * sqrt (- (2 * a2) + 2 * a1 ^ 2 + 1))"
proof -
  have r: "computeScalarFunctionTimeEquation exampleEnvironment s 0 = - (2 * a2) + 2 * a1 ^ 2 + 1"
    using example_radicand [OF assms(1)] by simp
  have v: "evaluateCompositeFunction (radialFunctions exampleEnvironment) (radialDistanceCompositeFunction s) 0 = 1"
    using assms(1) by (simp add: exampleEnvironment_def exampleRadialFunctions_def)
  show ?thesis
    unfolding computeCurrentTimeFromAzimuthAngle_def example_createQuadrature assms(3)
      derivativeTimeFunction_def r v assms(2)
    using assms(4) by (simp add: Let_def)
qed

lemma example_time_of_flight:
  assumes "radialDistanceCompositeFunction s = [1, a1, a2, a3, a4, a5, a6]"
      and "centralBodyGravitationalParameter s = 1"
      and "fst (quadratureSettings s) = 0"
      and "0 \<le> - (2 * a2) + 2 * a1 ^ 2 + 1"
  shows "computeNormalizedTimeOfFlight exampleEnvironment s
           = Inr (finalAzimuthAngle s * sqrt (- (2 * a2) + 2 * a1 ^ 2 + 1))"
  using example_time [OF assms, of "finalAzimuthAngle s"]
  by (simp add: computeNormalizedTimeOfFlight_def computeCurrentTimeFromAzimuthAngle_def)

lemma example_compositeFunctionCoefficients:
  assumes "exampleBoundary radius azimuth s"
  shows "compositeFunctionCoefficients exampleEnvironment s
           = [1, 1 + finalAzimuthAngle s * (1 / radius), 1 / radius, 1 / radius, 0, 0, 0, 0, 0, 0]"
proof -
  have b: "vectorBoundaryValues s = [1, 1 / radius, 0, 0, 0, radius - 1, 0, 0, 0, 0]"
    using assms
    by (simp add: exampleBoundary_def vectorBoundaryValues_def computeInitialValueBoundariesConstant_def
        computeFinalValueBoundariesConstant_def Let_def power2_eq_square)
  have c: "vectorTimes (vectorSecondComponentContribution exampleEnvironment s) (initialValueFreeCoefficient s)
             = [0, 0, 0, 0, 0, 0, 0, 0, 0, 0]"
    using assms by (simp add: exampleBoundary_def vectorTimes_def vectorSecondComponentContribution_def)
  have m: "\<And>x0 x1 x2 x3 x4 x5 x6 x7 x8 x9.
      matrixTimesVector (matrixInverse exampleEnvironment (matrixBoundaryConditions exampleEnvironment s))
        [x0, x1, x2, x3, x4, x5, x6, x7, x8, x9]
      = [x0, x0 + finalAzimuthAngle s * x1, x1, x1, 0, 0, 0, 0, 0, 0]"
    using assms
    by (simp add: exampleBoundary_def matrixTimesVector_def indices10_def matrixBoundaryConditions_def
        radialColumn_def elevationColumn_def setEntry_def matrixZero_def exampleEnvironment_def
        exampleRadialFunctions_def exampleElevationFunctions_def Let_def)
  show ?thesis
    unfolding compositeFunctionCoefficients_eq b c by (simp add: vectorMinus_def m)
qed

lemma associatedEpochs_succeeds:
  assumes "\<And>azimuthAngle. \<exists>time. computeCurrentTimeFromAzimuthAngle env s azimuthAngle = Inr time"
  shows "\<exists>d'. associatedEpochs env s angles d = Inr d'"
proof (induction angles arbitrary: d)
  case Nil
  then show ?case by simp
next
  case (Cons azimuthAngle rest)
  obtain time where "computeCurrentTimeFromAzimuthAngle env s azimuthAngle = Inr time"
    using assms by blast
  then show ?case using Cons.IH by simp
qed

lemma LinSpaced_succeeds:
  "1 \<le> size' \<Longrightarrow> \<exists>angles. LinSpaced size' low high = Inr angles \<and> angles \<noteq> []"
  by (simp add: LinSpaced_def)

lemma assign_not_empty:
  "assign key x dataToInterpolate \<noteq> []"
  by (induction key x dataToInterpolate rule: assign.induct) auto

lemma associatedEpochs_not_empty:
  assumes "associatedEpochs env s angles d = Inr d'"
      and "angles \<noteq> [] \<or> d \<noteq> []"
  shows "d' \<noteq> []"
  using assms
proof (induction angles arbitrary: d)
  case Nil
  then show ?case by simp
next
  case (Cons azimuthAngle rest)
  from Cons.prems(1) obtain time where
    "associatedEpochs env s rest (assign (time * JULIAN_YEAR env) azimuthAngle d) = Inr d'"
    by (auto split: sum.splits)
  then show ?case using Cons.IH assign_not_empty by blast
qed

lemma example_createInterpolator:
  assumes "radialDistanceCompositeFunction s = [1, a1, a2, a3, a4, a5, a6]"
      and "centralBodyGravitationalParameter s = 1"
      and "fst (quadratureSettings s) = 0"
      and "0 < - (2 * a2) + 2 * a1 ^ 2 + 1"
      and "0 < finalAzimuthAngle s"
  shows "\<exists>d. createInterpolator exampleEnvironment s = Inr (s\<lparr>interpolator := d\<rparr>)"
proof -
  let ?t = "finalAzimuthAngle s * sqrt (- (2 * a2) + 2 * a1 ^ 2 + 1)"
  have nonneg: "0 \<le> - (2 * a2) + 2 * a1 ^ 2 + 1" using assms(4) by simp
  have tof: "computeNormalizedTimeOfFlight exampleEnvironment s = Inr ?t"
    by (rule example_time_of_flight [OF assms(1-3) nonneg])
  have "0 < ?t" using assms(4,5) by simp
  then have "0 < ?t * JULIAN_YEAR exampleEnvironment / initialTimeStep exampleEnvironment"
    by (simp add: exampleEnvironment_def)
  then have "1 \<le> \<lceil>?t * JULIAN_YEAR exampleEnvironment / initialTimeStep exampleEnvironment\<rceil>"
    by (simp add: le_ceiling_iff)
  then obtain angles where lin:
    "LinSpaced \<lceil>?t * JULIAN_YEAR exampleEnvironment / initialTimeStep exampleEnvironment\<rceil>
       (initialAzimuthAngle s) (finalAzimuthAngle s) = Inr angles"
    and some: "angles \<noteq> []"
    using LinSpaced_succeeds by blast
  have "\<And>azimuthAngle. \<exists>time. computeCurrentTimeFromAzimuthAngle exampleEnvironment s azimuthAngle = Inr time"
    using example_time [OF assms(1-3) nonneg] by blast
  then obtain d where epochs: "associatedEpochs exampleEnvironment s angles [] = Inr d"
    using associatedEpochs_succeeds by blast
  have acc: "createOneDimensionalInterpolator exampleEnvironment d"
    using associatedEpochs_not_empty [OF epochs] some by (simp add: exampleEnvironment_def)
  show ?thesis
    unfolding createInterpolator_def Let_def tof
    using lin epochs acc by auto
qed

lemma exposinsBounds_exampleBoundary:
  "exampleBoundary \<rho> a (exposinsBounds s) = exampleBoundary \<rho> a s"
  by (simp add: exampleBoundary_def exposinsBounds_def Let_def coefficientSizes_def)

lemma exposinsBounds_more_fields:
  "quadratureSettings (exposinsBounds s) = (0, 16)"
  "radialDistanceCompositeFunction (exposinsBounds s) = radialDistanceCompositeFunction s"
  by (simp_all add: exposinsBounds_def Let_def)

lemma example_constructor:
  assumes \<rho>: "0 < \<rho>" and a: "0 < a" and n: "0 \<le> n"
  shows "\<exists>s. constructor exampleEnvironment exampleInitialState (exampleFinalState \<rho> a) 4 n 0 (- 1) 1 raw = Inr s
           \<and> radialDistanceCompositeFunction s
               = [1, 1 + (a + 2 * pi * real_of_int n) * (1 / \<rho>), 0, 1 / \<rho>, 1 / \<rho>, 0, 0]
           \<and> centralBodyGravitationalParameter s = 1
           \<and> quadratureSettings s = (0, 16)
           \<and> finalAzimuthAngle s = a + 2 * pi * real_of_int n"
proof -
  define s0 where "s0 = initialiseBoundaryStates exampleEnvironment exampleInitialState (exampleFinalState \<rho> a)
                          4 n 0 (- 1) 1 raw"
  define s1 where "s1 = s0\<lparr>coefficientsRadialDistanceFunction := [1, 1, 1, 1, 1, 1, 1],
            coefficientsElevationAngleFunction := [1, 1, 1, 1],
            radialDistanceCompositeFunction := [1, 1, 1, 1, 1, 1, 1],
            elevationAngleCompositeFunction := [1, 1, 1, 1],
            quadratureSettings := (initialAzimuthAngle s0, 16)\<rparr>"
  have i1: "initialiseCoefficients s0 = Inr s1"
    by (simp add: s1_def initialiseCoefficients_eq)
  have "0 \<le> 2 * pi * real_of_int n" using n by simp
  then have fin: "0 < a + 2 * pi * real_of_int n" using a by linarith
  have f0: "initialAzimuthAngle s0 = 0" "finalAzimuthAngle s0 = a + 2 * pi * real_of_int n"
    "initialStateSphericalCoordinates s0 = Vector6 1 0 0 0 1 0"
    "finalStateSphericalCoordinates s0 = Vector6 \<rho> a 0 0 1 0"
    "initialStateParametrizedByAzimuthAngle s0 = Vector6 1 0 0 0 1 0"
    "finalStateParametrizedByAzimuthAngle s0 = Vector6 \<rho> a 0 0 \<rho> 0"
    "centralBodyGravitationalParameter s0 = 1"
    "initialValueFreeCoefficient s0 = 0"
    using a \<rho>
    by (simp_all add: s0_def initialiseBoundaryStates_def Let_def exampleEnvironment_def
        exampleInitialState_def exampleFinalState_def normalizeState_def wrapAzimuthAngle_def
        parametrizedByAzimuthAngle_def segment_0_3_def segment_3_3_def fromSegments_def
        times3_def divide3_def)
  have b1: "exampleBoundary \<rho> a s1"
    using f0 fin \<rho> by (simp add: exampleBoundary_def s1_def coefficientSizes_def)
  have r1: "radialDistanceCompositeFunction s1 = [1, 1, 1, 1, 1, 1, 1]"
    and q1: "fst (quadratureSettings s1) = 0"
    and g1: "initialValueFreeCoefficient s1 = 0"
    using f0 by (simp_all add: s1_def)
  have reset1: "resetValueFreeCoefficient 0 s1 = s1"
    using g1 by (simp add: resetValueFreeCoefficient_def)
  have mu1: "centralBodyGravitationalParameter s1 = 1" using b1 by (simp add: exampleBoundary_def)
  have tof1: "\<exists>t. computeNormalizedTimeOfFlight exampleEnvironment s1 = Inr t"
    using example_time_of_flight [OF r1 mu1 q1] by simp
  have i2: "iterateToMatchRequiredTimeOfFlight exampleEnvironment (lowerBoundFreeCoefficient s1)
              (upperBoundFreeCoefficient s1) (initialValueFreeCoefficient s1) s1 = Inr s1"
    using tof1
    by (auto simp add: iterateToMatchRequiredTimeOfFlight_def exampleEnvironment_def g1 evaluate_def
        timeOfFlightFunction_def reset1 Let_def)
  define s3 where "s3 = exposinsBounds s1"
  have b3: "exampleBoundary \<rho> a s3" using b1 by (simp add: s3_def exposinsBounds_exampleBoundary)
  define g where "g = requiredGamma s3"
  define s3' where "s3' = resetRequiredGamma g s3"
  have b3': "exampleBoundary \<rho> a s3'"
    using b3 by (simp add: s3'_def resetRequiredGamma_def exampleBoundary_def coefficientSizes_def)
  have q3': "quadratureSettings s3' = (0, 16)"
    by (simp add: s3'_def s3_def resetRequiredGamma_def exposinsBounds_more_fields)
  have len: "length (coefficientsRadialDistanceFunction s3') = 7"
    "length (coefficientsElevationAngleFunction s3') = 4"
    using b3' by (simp_all add: exampleBoundary_def coefficientSizes_def)
  define s4 where "s4 = s3'\<lparr>coefficientsRadialDistanceFunction := [1, 1 + finalAzimuthAngle s3' * (1 / \<rho>), 0, 1 / \<rho>, 1 / \<rho>, 0, 0],
                    coefficientsElevationAngleFunction := [0, 0, 0, 0],
                    radialDistanceCompositeFunction := [1, 1 + finalAzimuthAngle s3' * (1 / \<rho>), 0, 1 / \<rho>, 1 / \<rho>, 0, 0],
                    elevationAngleCompositeFunction := [0, 0, 0, 0]\<rparr>"
  have sat: "satisfyBoundaryConditions exampleEnvironment s3' = Inr s4"
    unfolding satisfyBoundaryConditions_result [OF len] example_compositeFunctionCoefficients [OF b3'] s4_def
    using b3' by (simp add: exampleBoundary_def)
  have tofE: "\<exists>t. computeNormalizedTimeOfFlightExposins exampleEnvironment s4 = Inr t"
    by (simp add: computeNormalizedTimeOfFlightExposins_def example_createQuadrature)
  have i4: "iterateToMatchRequiredTimeOfFlightExposins exampleEnvironment (lowerBoundGamma s3)
              (upperBoundGamma s3) (requiredGamma s3) s3 = Inr s4"
    using tofE sat
    by (auto simp add: iterateToMatchRequiredTimeOfFlightExposins_def exampleEnvironment_def
        evaluateExposins_def timeOfFlightFunctionExposins_def s3'_def g_def Let_def)
  define s5 where "s5 = s4\<lparr>requiredGamma := - 25 * pi / 180,
                   quadratureSettings := (initialAzimuthAngle s4, 16)\<rparr>"
  have fin3: "finalAzimuthAngle s3' = a + 2 * pi * real_of_int n"
    using f0 by (simp add: s3'_def s3_def s1_def resetRequiredGamma_def exposinsBounds_fields)
  have fin5: "0 < finalAzimuthAngle s5" "finalAzimuthAngle s5 = finalAzimuthAngle s3'"
    using fin fin3 by (simp_all add: s5_def s4_def)
  have r5: "radialDistanceCompositeFunction s5 = [1, 1 + finalAzimuthAngle s3' * (1 / \<rho>), 0, 1 / \<rho>, 1 / \<rho>, 0, 0]"
    by (simp add: s5_def s4_def)
  have mu5: "centralBodyGravitationalParameter s5 = 1"
    using b3' by (simp add: s5_def s4_def exampleBoundary_def)
  have q5: "quadratureSettings s5 = (0, 16)"
    using b3' by (simp add: s5_def s4_def exampleBoundary_def)
  have q5': "fst (quadratureSettings s5) = 0" using q5 by simp
  have "0 \<le> 2 * (1 + finalAzimuthAngle s3' * (1 / \<rho>)) ^ 2" by simp
  then have pos: "0 < - (2 * 0) + 2 * (1 + finalAzimuthAngle s3' * (1 / \<rho>)) ^ 2 + (1::real)" by linarith
  obtain d where i5: "createInterpolator exampleEnvironment s5 = Inr (s5\<lparr>interpolator := d\<rparr>)"
    using example_createInterpolator [OF r5 mu5 q5' pos fin5(1)] by blast
  have "constructor exampleEnvironment exampleInitialState (exampleFinalState \<rho> a) 4 n 0 (- 1) 1 raw
          = Inr (s5\<lparr>interpolator := d\<rparr>)"
    unfolding constructor_def Let_def s0_def [symmetric] i1 sum.case i2 s3_def [symmetric] i4
      s5_def [symmetric] i5
    by (rule refl)
  then show ?thesis using r5 mu5 q5 fin5(2) fin3 by simp
qed

subsection \<open>The claims on the example configuration\<close>

theorem C10_travelled_azimuth_angle_constant_witness:
  "\<not> isl (constructor exampleEnvironment exampleInitialState (exampleFinalState (3 / 2) 1) 4 0 0 (- 1) 1 exampleRaw)
   \<and> getTravelledAzimuthAngle
        (projr (constructor exampleEnvironment exampleInitialState (exampleFinalState (3 / 2) 1) 4 0 0 (- 1) 1
                  exampleRaw))
       = pi / 2 + 4 * pi"
proof -
  obtain s where c: "constructor exampleEnvironment exampleInitialState (exampleFinalState (3 / 2) 1) 4 0 0 (- 1) 1
                       exampleRaw = Inr s"
    using example_constructor [of "3 / 2" 1 0 exampleRaw] by auto
  show ?thesis
    using C10_travelled_azimuth_angle_constant [OF c] by (simp add: c)
qed


subsection \<open>Feasibility\<close>


lemma getQuadrature_returns:
  assumes "\<And>x. \<exists>y. f x = Inr y"
  shows "\<exists>v. getQuadrature f nodes = Inr v"
proof (induction nodes)
  case Nil
  then show ?case by simp
next
  case (Cons p rest)
  obtain x w where p: "p = (x, w)" by (cases p)
  obtain y where "f x = Inr y" using assms by blast
  then show ?case using Cons p by auto
qed


text \<open>\<^verbatim>\<open>computeDeltaV\<close> has no failure path of its own: its integrand always returns a value.\<close>

lemma computeDeltaV_returns:
  "\<exists>v. fst (computeDeltaV env s) = Inr v"
proof -
  have "\<exists>v. getQuadrature (derivativeFunctionDeltaV env s)
              (quadratureNodes env (quadratureSettings s) (finalAzimuthAngle s)) = Inr v"
    by (rule getQuadrature_returns) (simp add: derivativeFunctionDeltaV_def Let_def)
  then show ?thesis by (auto simp add: computeDeltaV_def createQuadrature_def)
qed





subsection \<open>Boundary conditions, units and queries\<close>

lemma example_solution:
  "compositeFunctionCoefficients exampleEnvironment (resetValueFreeCoefficient 3 exampleShape)
     = [1, - 1, - 2, - 2, 0, 0, 0, 0, 0, 0]"
  by (simp add: compositeFunctionCoefficients_eq resetValueFreeCoefficient_def exampleShape_def
      vectorBoundaryValues_def computeInitialValueBoundariesConstant_def
      computeFinalValueBoundariesConstant_def vectorTimes_def vectorSecondComponentContribution_def
      vectorMinus_def matrixTimesVector_def indices10_def matrixBoundaryConditions_def
      radialColumn_def elevationColumn_def setEntry_def matrixZero_def exampleEnvironment_def
      exampleRadialFunctions_def exampleElevationFunctions_def Let_def)

theorem C3_satisfyBoundaryConditions_solves_and_installs_witness:
  "length (coefficientsRadialDistanceFunction (resetValueFreeCoefficient 3 exampleShape)) = 7
   \<and> length (coefficientsElevationAngleFunction (resetValueFreeCoefficient 3 exampleShape)) = 4
   \<and> satisfyBoundaryConditions exampleEnvironment (resetValueFreeCoefficient 3 exampleShape)
       = Inr (resetValueFreeCoefficient 3 exampleShape
               \<lparr>coefficientsRadialDistanceFunction := [1, - 1, 3, - 2, - 2, 0, 0],
                coefficientsElevationAngleFunction := [0, 0, 0, 0],
                radialDistanceCompositeFunction := [1, - 1, 3, - 2, - 2, 0, 0],
                elevationAngleCompositeFunction := [0, 0, 0, 0]\<rparr>)"
proof -
  have r: "length (coefficientsRadialDistanceFunction (resetValueFreeCoefficient 3 exampleShape)) = 7"
    and e: "length (coefficientsElevationAngleFunction (resetValueFreeCoefficient 3 exampleShape)) = 4"
    and x: "initialValueFreeCoefficient (resetValueFreeCoefficient 3 exampleShape) = 3"
    by (simp_all add: resetValueFreeCoefficient_def exampleShape_def)
  have sol: "matrixTimesVector
      (matrixInverse exampleEnvironment
         (matrixBoundaryConditions exampleEnvironment (resetValueFreeCoefficient 3 exampleShape)))
      (vectorMinus (vectorBoundaryValues (resetValueFreeCoefficient 3 exampleShape))
         (vectorTimes (vectorSecondComponentContribution exampleEnvironment (resetValueFreeCoefficient 3 exampleShape))
            3))
      = [1, - 1, - 2, - 2, 0, 0, 0, 0, 0, 0]"
    using example_solution unfolding compositeFunctionCoefficients_eq x .
  have "satisfyBoundaryConditions exampleEnvironment (resetValueFreeCoefficient 3 exampleShape)
       = Inr (resetValueFreeCoefficient 3 exampleShape
               \<lparr>coefficientsRadialDistanceFunction := [1, - 1, 3, - 2, - 2, 0, 0],
                coefficientsElevationAngleFunction := [0, 0, 0, 0],
                radialDistanceCompositeFunction := [1, - 1, 3, - 2, - 2, 0, 0],
                elevationAngleCompositeFunction := [0, 0, 0, 0]\<rparr>)"
    using C3_satisfyBoundaryConditions_solves_and_installs [OF r e, of exampleEnvironment]
    unfolding Let_def x sol by simp
  then show ?thesis using r e by simp
qed

text \<open>
  The example object is the one the constructor holds when the coefficients have been
  initialised; solving the boundary conditions on it for the free coefficient \<open>3\<close> gives
  a shape whose radicand is negative at the initial azimuth angle.
\<close>

lemma example_shape_reached:
  "initialiseCoefficients
     (initialiseBoundaryStates exampleEnvironment exampleInitialState (exampleFinalState 1 1) 4 0 0 (- 1) 1 exampleRaw)
     = Inr exampleShape"
  unfolding initialiseCoefficients_eq
  by (simp add: initialiseBoundaryStates_def Let_def exampleEnvironment_def exampleInitialState_def
      exampleFinalState_def exampleRaw_def exampleShape_def normalizeState_def wrapAzimuthAngle_def
      parametrizedByAzimuthAngle_def segment_0_3_def segment_3_3_def fromSegments_def times3_def
      divide3_def)



lemma coincident_angles_rows:
  assumes "initialAzimuthAngle s = finalAzimuthAngle s"
  shows "map (matrixBoundaryConditions env s 0) indices10 = map (matrixBoundaryConditions env s 1) indices10"
  using assms
  by (simp add: indices10_def matrixBoundaryConditions_def radialColumn_def elevationColumn_def
      setEntry_def matrixZero_def Let_def)

text \<open>
  Claim C6, as amended. \<^verbatim>\<open>computeInverseMatrixBoundaryConditions\<close> has no failure path: it
  returns what the inverse routine gives for the assembled matrix, whatever that matrix is.
  With coincident boundary angles the first two rows of the matrix are equal, so the matrix
  is singular, and the solve still returns a coefficient set. \<^verbatim>\<open>satisfyBoundaryConditions\<close>
  fails only when a coefficient vector of the object has the wrong size.
\<close>

theorem C6_singular_matrix_is_not_detected:
  "(initialAzimuthAngle s = finalAzimuthAngle s
      \<longrightarrow> map (matrixBoundaryConditions env s 0) indices10 = map (matrixBoundaryConditions env s 1) indices10)
   \<and> computeInverseMatrixBoundaryConditions env s = matrixInverse env (matrixBoundaryConditions env s)
   \<and> (coefficientSizes s \<longrightarrow> \<not> isl (satisfyBoundaryConditions env s))
   \<and> (satisfyBoundaryConditions env s = Inl e
      \<longrightarrow> length (coefficientsRadialDistanceFunction s) \<noteq> 7
          \<or> length (coefficientsElevationAngleFunction s) \<noteq> 4)"
proof (intro conjI impI)
  assume "initialAzimuthAngle s = finalAzimuthAngle s"
  then show "map (matrixBoundaryConditions env s 0) indices10 = map (matrixBoundaryConditions env s 1) indices10"
    by (rule coincident_angles_rows)
next
  show "computeInverseMatrixBoundaryConditions env s = matrixInverse env (matrixBoundaryConditions env s)"
    by (simp add: computeInverseMatrixBoundaryConditions_def)
next
  assume "coefficientSizes s"
  then show "\<not> isl (satisfyBoundaryConditions env s)"
    using satisfyBoundaryConditions_result [of s env] by (simp add: coefficientSizes_def)
next
  assume "satisfyBoundaryConditions env s = Inl e"
  then show "length (coefficientsRadialDistanceFunction s) \<noteq> 7
          \<or> length (coefficientsElevationAngleFunction s) \<noteq> 4"
    using satisfyBoundaryConditions_result [of s env] by auto
qed

text \<open>
  Claim C6 as stated fails: with initial and final azimuth angle both \<open>0\<close> the first two
  rows of the boundary matrix are equal, and \<^verbatim>\<open>satisfyBoundaryConditions\<close> returns an object,
  not an error.
\<close>

theorem C6_singular_matrix_counterexample:
  "map (matrixBoundaryConditions exampleEnvironment (exampleShape\<lparr>finalAzimuthAngle := 0\<rparr>) 0) indices10
     = map (matrixBoundaryConditions exampleEnvironment (exampleShape\<lparr>finalAzimuthAngle := 0\<rparr>) 1) indices10
   \<and> \<not> isl (satisfyBoundaryConditions exampleEnvironment (exampleShape\<lparr>finalAzimuthAngle := 0\<rparr>))"
proof -
  have "length (coefficientsRadialDistanceFunction (exampleShape\<lparr>finalAzimuthAngle := 0\<rparr>)) = 7"
    and "length (coefficientsElevationAngleFunction (exampleShape\<lparr>finalAzimuthAngle := 0\<rparr>)) = 4"
    by (simp_all add: exampleShape_def)
  then have "\<not> isl (satisfyBoundaryConditions exampleEnvironment (exampleShape\<lparr>finalAzimuthAngle := 0\<rparr>))"
    using satisfyBoundaryConditions_result [of "exampleShape\<lparr>finalAzimuthAngle := 0\<rparr>" exampleEnvironment]
    by simp
  moreover have "initialAzimuthAngle (exampleShape\<lparr>finalAzimuthAngle := 0\<rparr>)
      = finalAzimuthAngle (exampleShape\<lparr>finalAzimuthAngle := 0\<rparr>)"
    by (simp add: exampleShape_def)
  ultimately show ?thesis using coincident_angles_rows by blast
qed

theorem C6_singular_matrix_is_not_detected_witness:
  "initialAzimuthAngle (exampleShape\<lparr>finalAzimuthAngle := 0\<rparr>) = finalAzimuthAngle (exampleShape\<lparr>finalAzimuthAngle := 0\<rparr>)
   \<and> coefficientSizes (exampleShape\<lparr>finalAzimuthAngle := 0\<rparr>)
   \<and> satisfyBoundaryConditions exampleEnvironment (exampleShape\<lparr>coefficientsRadialDistanceFunction := []\<rparr>)
       = Inl IndexOutOfRange
   \<and> map (matrixBoundaryConditions exampleEnvironment (exampleShape\<lparr>finalAzimuthAngle := 0\<rparr>) 0) indices10
       = [1, 0, 0, 0, 0, 0, 0, 0, 0, 0]
   \<and> map (matrixBoundaryConditions exampleEnvironment (exampleShape\<lparr>finalAzimuthAngle := 0\<rparr>) 1) indices10
       = [1, 0, 0, 0, 0, 0, 0, 0, 0, 0]
   \<and> \<not> isl (satisfyBoundaryConditions exampleEnvironment (exampleShape\<lparr>finalAzimuthAngle := 0\<rparr>))
   \<and> length (coefficientsRadialDistanceFunction (exampleShape\<lparr>coefficientsRadialDistanceFunction := []\<rparr>)) \<noteq> 7"
proof -
  let ?s = "exampleShape\<lparr>finalAzimuthAngle := 0\<rparr>"
  have a: "initialAzimuthAngle ?s = finalAzimuthAngle ?s" by (simp add: exampleShape_def)
  have b: "coefficientSizes ?s" by (simp add: exampleShape_def coefficientSizes_def)
  have c: "satisfyBoundaryConditions exampleEnvironment (exampleShape\<lparr>coefficientsRadialDistanceFunction := []\<rparr>)
       = Inl IndexOutOfRange"
    by (simp add: satisfyBoundaryConditions_def radialCoefficientWrite_def writeCoefficient_def)
  have d: "map (matrixBoundaryConditions exampleEnvironment ?s 0) indices10 = [1, 0, 0, 0, 0, 0, 0, 0, 0, 0]"
    by (simp add: indices10_def matrixBoundaryConditions_def radialColumn_def elevationColumn_def
      setEntry_def matrixZero_def Let_def exampleEnvironment_def exampleRadialFunctions_def
      exampleElevationFunctions_def exampleShape_def)
  note t = C6_singular_matrix_is_not_detected [of ?s exampleEnvironment]
  note u = C6_singular_matrix_is_not_detected
             [of "exampleShape\<lparr>coefficientsRadialDistanceFunction := []\<rparr>" exampleEnvironment IndexOutOfRange]
  have "map (matrixBoundaryConditions exampleEnvironment ?s 1) indices10 = [1, 0, 0, 0, 0, 0, 0, 0, 0, 0]"
    using t a d by simp
  moreover have "\<not> isl (satisfyBoundaryConditions exampleEnvironment ?s)" using t b by blast
  moreover have "length (coefficientsRadialDistanceFunction (exampleShape\<lparr>coefficientsRadialDistanceFunction := []\<rparr>)) \<noteq> 7"
    using u c by (simp add: exampleShape_def)
  ultimately show ?thesis using a b c d by blast
qed

lemma normalizeState_computeCurrentStateVector:
  assumes "ASTRONOMICAL_UNIT env \<noteq> 0" and "JULIAN_YEAR env \<noteq> 0"
  shows "normalizeState env (fst (computeCurrentStateVector env x s)) = computeNormalizedStateVector env s x"
  using assms
  by (cases "computeNormalizedStateVector env s x")
     (simp add: normalizeState_def computeCurrentStateVector_def fromSegments_def segment_0_3_def
        segment_3_3_def times3_def divide3_def)

text \<open>
  Claim C8, as amended. \<^verbatim>\<open>computeTimeOfFlight\<close> returns the normalized time of flight times
  one Julian year; \<^verbatim>\<open>computeCurrentStateVector\<close> returns the normalized state with the
  position times one astronomical unit and the velocity times one astronomical unit per
  Julian year; \<^verbatim>\<open>computeCurrentThrustAccelerationVector\<close> returns the normalized thrust
  acceleration times one astronomical unit per Julian year squared. The public queries
  \<^verbatim>\<open>computeCurrentTimeFromAzimuthAngle\<close> and \<^verbatim>\<open>convertIndependentVariableToTime\<close> return
  the normalized time as it is: at the final azimuth angle the normalized time of flight, of
  which \<^verbatim>\<open>computeTimeOfFlight\<close> returns the multiple. The rescaling of the state is the
  inverse of the normalization that the constructor applies to the boundary states.
\<close>

theorem C8_listed_queries_rescale:
  "computeTimeOfFlight env s = map_sum id (\<lambda>t. t * JULIAN_YEAR env) (computeNormalizedTimeOfFlight env s)
   \<and> v0 (fst (computeCurrentStateVector env x s)) = v0 (computeNormalizedStateVector env s x) * ASTRONOMICAL_UNIT env
   \<and> v1 (fst (computeCurrentStateVector env x s)) = v1 (computeNormalizedStateVector env s x) * ASTRONOMICAL_UNIT env
   \<and> v2 (fst (computeCurrentStateVector env x s)) = v2 (computeNormalizedStateVector env s x) * ASTRONOMICAL_UNIT env
   \<and> v3 (fst (computeCurrentStateVector env x s))
       = v3 (computeNormalizedStateVector env s x) * ASTRONOMICAL_UNIT env / JULIAN_YEAR env
   \<and> v4 (fst (computeCurrentStateVector env x s))
       = v4 (computeNormalizedStateVector env s x) * ASTRONOMICAL_UNIT env / JULIAN_YEAR env
   \<and> v5 (fst (computeCurrentStateVector env x s))
       = v5 (computeNormalizedStateVector env s x) * ASTRONOMICAL_UNIT env / JULIAN_YEAR env
   \<and> e0 (fst (computeCurrentThrustAccelerationVector env x s))
       = e0 (computeNormalizedThrustAccelerationVector env s x) * ASTRONOMICAL_UNIT env / (JULIAN_YEAR env) ^ 2
   \<and> e1 (fst (computeCurrentThrustAccelerationVector env x s))
       = e1 (computeNormalizedThrustAccelerationVector env s x) * ASTRONOMICAL_UNIT env / (JULIAN_YEAR env) ^ 2
   \<and> e2 (fst (computeCurrentThrustAccelerationVector env x s))
       = e2 (computeNormalizedThrustAccelerationVector env s x) * ASTRONOMICAL_UNIT env / (JULIAN_YEAR env) ^ 2
   \<and> computeCurrentTimeFromAzimuthAngle env s (finalAzimuthAngle s) = computeNormalizedTimeOfFlight env s
   \<and> convertIndependentVariableToTime env s x = computeCurrentTimeFromAzimuthAngle env s x
   \<and> computeTimeOfFlight env s
       = map_sum id (\<lambda>t. t * JULIAN_YEAR env) (computeCurrentTimeFromAzimuthAngle env s (finalAzimuthAngle s))
   \<and> (ASTRONOMICAL_UNIT env \<noteq> 0 \<and> JULIAN_YEAR env \<noteq> 0
        \<longrightarrow> normalizeState env (fst (computeCurrentStateVector env x s)) = computeNormalizedStateVector env s x)"
proof -
  have "ASTRONOMICAL_UNIT env \<noteq> 0 \<and> JULIAN_YEAR env \<noteq> 0
        \<longrightarrow> normalizeState env (fst (computeCurrentStateVector env x s)) = computeNormalizedStateVector env s x"
    using normalizeState_computeCurrentStateVector by blast
  then show ?thesis
    by (simp add: computeTimeOfFlight_def computeCurrentStateVector_def
        computeCurrentThrustAccelerationVector_def fromSegments_def segment_0_3_def segment_3_3_def
        times3_def divide3_def computeCurrentTimeFromAzimuthAngle_def computeNormalizedTimeOfFlight_def
        convertIndependentVariableToTime_def split: sum.splits)
qed

theorem C8_listed_queries_rescale_witness:
  "ASTRONOMICAL_UNIT exampleEnvironment \<noteq> 0
   \<and> JULIAN_YEAR exampleEnvironment \<noteq> 0
   \<and> normalizeState exampleEnvironment (fst (computeCurrentStateVector exampleEnvironment 0 exampleShape))
       = computeNormalizedStateVector exampleEnvironment exampleShape 0
   \<and> computeTimeOfFlight exampleEnvironment exampleShape = Inr 4"
proof -
  have units: "ASTRONOMICAL_UNIT exampleEnvironment \<noteq> 0" "JULIAN_YEAR exampleEnvironment \<noteq> 0"
    by (simp_all add: exampleEnvironment_def)
  have year: "JULIAN_YEAR exampleEnvironment = 4" by (simp add: exampleEnvironment_def)
  have tof: "computeNormalizedTimeOfFlight exampleEnvironment exampleShape = Inr 1"
    using example_tof [of 0] by (simp add: resetValueFreeCoefficient_def exampleShape_def)
  note t = C8_listed_queries_rescale [of exampleEnvironment exampleShape 0]
  have "normalizeState exampleEnvironment (fst (computeCurrentStateVector exampleEnvironment 0 exampleShape))
       = computeNormalizedStateVector exampleEnvironment exampleShape 0"
    using t units by blast
  moreover have "computeTimeOfFlight exampleEnvironment exampleShape = Inr 4"
    using t by (simp add: tof year)
  ultimately show ?thesis using units by simp
qed

text \<open>
  Claim C8 as stated fails: not every public query rescales. On the object constructed
  from the example states the time of flight in physical units is \<open>12\<close>, the Julian year
  being \<open>4\<close>, and \<^verbatim>\<open>computeCurrentTimeFromAzimuthAngle\<close> and
  \<^verbatim>\<open>convertIndependentVariableToTime\<close> at the final azimuth angle return \<open>3\<close>, the
  normalized time.
\<close>

theorem C8_time_query_not_rescaled_counterexample:
  "\<not> isl (constructor exampleEnvironment exampleInitialState (exampleFinalState 1 1) 4 0 0 (- 1) 1 exampleRaw)
   \<and> JULIAN_YEAR exampleEnvironment = 4
   \<and> getFinalAzimuthAngle
        (projr (constructor exampleEnvironment exampleInitialState (exampleFinalState 1 1) 4 0 0 (- 1) 1 exampleRaw)) = 1
   \<and> computeTimeOfFlight exampleEnvironment
        (projr (constructor exampleEnvironment exampleInitialState (exampleFinalState 1 1) 4 0 0 (- 1) 1 exampleRaw))
       = Inr 12
   \<and> computeCurrentTimeFromAzimuthAngle exampleEnvironment
        (projr (constructor exampleEnvironment exampleInitialState (exampleFinalState 1 1) 4 0 0 (- 1) 1 exampleRaw)) 1
       = Inr 3
   \<and> convertIndependentVariableToTime exampleEnvironment
        (projr (constructor exampleEnvironment exampleInitialState (exampleFinalState 1 1) 4 0 0 (- 1) 1 exampleRaw)) 1
       = Inr 3"
proof -
  obtain s where c: "constructor exampleEnvironment exampleInitialState (exampleFinalState 1 1) 4 0 0 (- 1) 1
                       exampleRaw = Inr s"
    and r: "radialDistanceCompositeFunction s = [1, 2, 0, 1, 1, 0, 0]"
    and mu: "centralBodyGravitationalParameter s = 1"
    and q: "quadratureSettings s = (0, 16)"
    and f: "finalAzimuthAngle s = 1"
    using example_constructor [of 1 1 0 exampleRaw] by auto
  have q': "fst (quadratureSettings s) = 0" using q by simp
  have three: "sqrt 9 = 3" by (rule real_sqrt_unique) simp_all
  have pos: "0 \<le> - (2 * 0) + 2 * 2 ^ 2 + (1::real)" by simp
  have time: "\<And>upperBound. computeCurrentTimeFromAzimuthAngle exampleEnvironment s upperBound
                 = Inr (upperBound * 3)"
    using example_time [OF r mu q' pos] by (simp add: three)
  have tof: "computeNormalizedTimeOfFlight exampleEnvironment s = Inr 3"
    using time [of "finalAzimuthAngle s"]
    by (simp add: f computeNormalizedTimeOfFlight_def computeCurrentTimeFromAzimuthAngle_def)
  have "computeTimeOfFlight exampleEnvironment s = Inr 12"
    unfolding computeTimeOfFlight_def tof by (simp add: exampleEnvironment_def)
  moreover have "convertIndependentVariableToTime exampleEnvironment s 1 = Inr 3"
    using time [of 1]
    by (simp add: convertIndependentVariableToTime_def computeCurrentTimeFromAzimuthAngle_def)
  moreover have "JULIAN_YEAR exampleEnvironment = 4" by (simp add: exampleEnvironment_def)
  ultimately show ?thesis using time [of 1] f by (simp add: c getFinalAzimuthAngle_def)
qed

text \<open>
  Claim C9. \<^verbatim>\<open>computeCurrentStateVector\<close> and \<^verbatim>\<open>computeDeltaV\<close> leave the object as it was,
  so a second call with the same argument, directly or after the other query, returns what
  the first call returned.
\<close>

theorem C9_queries_leave_object_unchanged:
  "snd (computeCurrentStateVector env x s) = s
   \<and> snd (computeDeltaV env s) = s
   \<and> computeCurrentStateVector env x (snd (computeCurrentStateVector env x s)) = computeCurrentStateVector env x s
   \<and> computeDeltaV env (snd (computeDeltaV env s)) = computeDeltaV env s
   \<and> computeCurrentStateVector env x (snd (computeDeltaV env s)) = computeCurrentStateVector env x s
   \<and> computeDeltaV env (snd (computeCurrentStateVector env x s)) = computeDeltaV env s"
proof -
  have a: "snd (computeCurrentStateVector env x s) = s"
    by (simp add: computeCurrentStateVector_def)
  have b: "snd (computeDeltaV env s) = s"
    by (simp add: computeDeltaV_def split: sum.splits)
  show ?thesis by (simp add: a b)
qed

end
